theory Spec2Isabelle
  imports Complex_Main "HOL-Library.Sublist"
begin

section \<open>JavaScript values\<close>

text \<open>
  The chat route (\<^verbatim>\<open>src/app/api/chat/route.ts\<close>) reads an untyped JSON body, so the
  model works on JavaScript values rather than on the TypeScript interfaces, which are
  erased at run time. \<open>JUndefined\<close> never comes out of \<^verbatim>\<open>JSON.parse\<close>; it is the value
  of a property that an object does not have. A string is modelled by the bytes of its
  UTF-8 encoding (so the emoji of the greeting replies are four bytes each); an object
  by its key-value pairs in insertion order, with distinct keys.

  What the route writes to the console and the times it measures have no part in what
  it answers or calls, and are left out. The logging route and the page that calls the
  two routes are not modelled.
\<close>

datatype jsval =
    JUndefined
  | JNull
  | JBool bool
  | JNum real
  | JStr string
  | JArr "jsval list"
  | JObj "(string \<times> jsval) list"

text \<open>Everything the handler can throw; all of it is caught by the one \<^verbatim>\<open>catch\<close>.\<close>

datatype error = SyntaxError | TypeError | UpstreamError

definition lookup :: "(string \<times> jsval) list \<Rightarrow> string \<Rightarrow> jsval" where
  "lookup kvs k = (case map_of kvs k of None \<Rightarrow> JUndefined | Some v \<Rightarrow> v)"

text \<open>
  \<^verbatim>\<open>v.k\<close> for the data properties the route reads (\<^verbatim>\<open>messages\<close>, \<^verbatim>\<open>userId\<close>,
  \<^verbatim>\<open>persona\<close>, \<^verbatim>\<open>content\<close>, \<^verbatim>\<open>role\<close>): a \<^verbatim>\<open>TypeError\<close> on \<^verbatim>\<open>null\<close> and
  \<^verbatim>\<open>undefined\<close>, the stored value on an object, \<^verbatim>\<open>undefined\<close> on every other value
  (no primitive wrapper and no array has a property of one of these names).
\<close>

fun get_prop :: "jsval \<Rightarrow> string \<Rightarrow> error + jsval" where
  "get_prop JUndefined k = Inl TypeError"
| "get_prop JNull k = Inl TypeError"
| "get_prop (JObj kvs) k = Inr (lookup kvs k)"
| "get_prop v k = Inr JUndefined"

section \<open>Strings: \<^verbatim>\<open>trim\<close>, \<^verbatim>\<open>toLowerCase\<close>, \<^verbatim>\<open>join\<close> and the greeting patterns\<close>

text \<open>
  The characters that \<^verbatim>\<open>String.prototype.trim\<close> strips and that \<^verbatim>\<open>\s\<close> matches are the
  same set (ECMAScript WhiteSpace and LineTerminator), here in UTF-8: tab, line feed,
  vertical tab, form feed, carriage return, space, U+00A0, U+1680, U+2000 to U+200A,
  U+2028, U+2029, U+202F, U+205F, U+3000 and U+FEFF.
\<close>

definition js_whitespace :: "string list" where
  "js_whitespace =
    [[CHR 0x09], [CHR 0x0A], [CHR 0x0B], [CHR 0x0C], [CHR 0x0D], [CHR 0x20],
     [CHR 0xC2, CHR 0xA0],
     [CHR 0xE1, CHR 0x9A, CHR 0x80],
     [CHR 0xE2, CHR 0x80, CHR 0x80], [CHR 0xE2, CHR 0x80, CHR 0x81],
     [CHR 0xE2, CHR 0x80, CHR 0x82], [CHR 0xE2, CHR 0x80, CHR 0x83],
     [CHR 0xE2, CHR 0x80, CHR 0x84], [CHR 0xE2, CHR 0x80, CHR 0x85],
     [CHR 0xE2, CHR 0x80, CHR 0x86], [CHR 0xE2, CHR 0x80, CHR 0x87],
     [CHR 0xE2, CHR 0x80, CHR 0x88], [CHR 0xE2, CHR 0x80, CHR 0x89],
     [CHR 0xE2, CHR 0x80, CHR 0x8A],
     [CHR 0xE2, CHR 0x80, CHR 0xA8], [CHR 0xE2, CHR 0x80, CHR 0xA9],
     [CHR 0xE2, CHR 0x80, CHR 0xAF],
     [CHR 0xE2, CHR 0x81, CHR 0x9F],
     [CHR 0xE3, CHR 0x80, CHR 0x80],
     [CHR 0xEF, CHR 0xBB, CHR 0xBF]]"

text \<open>
  Strips, again and again, whichever of the sequences \<open>ws\<close> the string starts with (an
  empty sequence strips nothing; the white space sequences are all non-empty).
\<close>

function strip_leading :: "string list \<Rightarrow> string \<Rightarrow> string" where
  "strip_leading ws s =
     (case find (\<lambda>w. w \<noteq> [] \<and> prefix w s) ws of
        None \<Rightarrow> s
      | Some w \<Rightarrow> strip_leading ws (drop (length w) s))"
  by pat_completeness auto
termination
proof (relation "measure (\<lambda>(ws, s). length s)")
  show "wf (measure (\<lambda>(ws, s). length s))"
    by simp
next
  fix ws :: "string list" and s w :: string
  assume "find (\<lambda>w. w \<noteq> [] \<and> prefix w s) ws = Some w"
  then have "w \<noteq> []" and "prefix w s"
    by (auto simp: find_Some_iff)
  then have "s \<noteq> []"
    by auto
  with \<open>w \<noteq> []\<close> show "((ws, drop (length w) s), (ws, s)) \<in> measure (\<lambda>(ws, s). length s)"
    by simp
qed

definition trim :: "string \<Rightarrow> string" where
  "trim s = rev (strip_leading (map rev js_whitespace) (rev (strip_leading js_whitespace s)))"

text \<open>
  \<^verbatim>\<open>toLowerCase\<close> on the ASCII letters. The route lower-cases a string only to test it
  against patterns made of ASCII letters, a space, an apostrophe and white space, and the
  Unicode lower-casing of a character outside ASCII yields neither white space nor an
  ASCII letter that one of these patterns could use at that place, so the test does not
  see the difference.
\<close>

definition lower_char :: "char \<Rightarrow> char" where
  "lower_char c =
     (let n = (of_char c :: nat) in if 65 \<le> n \<and> n \<le> 90 then char_of (n + 32) else c)"

definition toLowerCase :: "string \<Rightarrow> string" where
  "toLowerCase s = map lower_char s"

text \<open>
  The \<^verbatim>\<open>i\<close> flag compares canonical forms, which for a pattern of ASCII characters and a
  regular expression without the \<^verbatim>\<open>u\<close> flag is the comparison of ASCII upper-casings: a
  character outside ASCII never canonicalises to an ASCII one.
\<close>

definition canonicalize :: "char \<Rightarrow> char" where
  "canonicalize c =
     (let n = (of_char c :: nat) in if 97 \<le> n \<and> n \<le> 122 then char_of (n - 32) else c)"

text \<open>Matches a literal at the start of the input; the rest of the input on success.\<close>

fun match_literal :: "string \<Rightarrow> string \<Rightarrow> string option" where
  "match_literal [] s = Some s"
| "match_literal (p # ps) [] = None"
| "match_literal (p # ps) (c # cs) =
     (if canonicalize p = canonicalize c then match_literal ps cs else None)"

text \<open>The three endings the patterns use: \<^verbatim>\<open>$\<close>, \<^verbatim>\<open>\s\<close> and \<^verbatim>\<open>\?\<close>.\<close>

definition at_end :: "string \<Rightarrow> bool" where
  "at_end s = (s = [])"

definition at_space :: "string \<Rightarrow> bool" where
  "at_space s = list_ex (\<lambda>w. prefix w s) js_whitespace"

definition at_question :: "string \<Rightarrow> bool" where
  "at_question s = (case s of [] \<Rightarrow> False | c # cs \<Rightarrow> c = CHR ''?'')"

text \<open>
  \<^verbatim>\<open>/^(a1|a2|...)(tail)/i.test(s)\<close>: the pattern is anchored at the start, and the
  backtracking matcher accepts when some alternative matches with the tail after it.
\<close>

definition test_pattern :: "string list \<Rightarrow> (string \<Rightarrow> bool) \<Rightarrow> string \<Rightarrow> bool" where
  "test_pattern alts tail s =
     list_ex (\<lambda>a. case match_literal a s of None \<Rightarrow> False | Some rest \<Rightarrow> tail rest) alts"

definition greetingPatterns :: "(string \<Rightarrow> bool) list" where
  "greetingPatterns =
    [test_pattern
       [''hi'', ''hello'', ''hey'', ''good morning'', ''good afternoon'', ''good evening'',
        ''greetings'']
       (\<lambda>r. at_space r \<or> at_end r),
     test_pattern
       [''how are you'', ''what'' @ [CHR 0x27] @ ''s up'', ''wassup'', ''sup'']
       (\<lambda>r. at_question r \<or> at_space r \<or> at_end r),
     test_pattern
       [''hola'', ''bonjour'', ''hallo'', ''ciao'']
       (\<lambda>r. at_space r \<or> at_end r)]"

definition isGreeting :: "string \<Rightarrow> bool" where
  "isGreeting query = list_ex (\<lambda>pattern. pattern (toLowerCase (trim query))) greetingPatterns"

text \<open>\<^verbatim>\<open>Array.prototype.join\<close> on an array of strings.\<close>

fun join :: "string \<Rightarrow> string list \<Rightarrow> string" where
  "join sep [] = []"
| "join sep [x] = x"
| "join sep (x # y # ys) = x @ sep @ join sep (y # ys)"

section \<open>The persona prompts and the greeting replies\<close>

text \<open>
  The two templates of \<^verbatim>\<open>SYSTEM_PROMPTS\<close>, line by line as the source has them (a template
  literal keeps its line breaks; the \<^verbatim>\<open>roleplay\<close> one starts and ends with a line break).
\<close>

datatype Persona = general | roleplay

definition general_prompt_lines :: "string list" where
  "general_prompt_lines =
    [''You are a specialized assistant with the following guidelines:'',
     [],
     ''1. Conversational Approach:'',
     ''   - Maintain a friendly and natural dialog flow'',
     ''   - Use a warm, approachable tone'',
     ''   - Show genuine interest in user questions'',
     ''   - Engage in a way that encourages continued conversation'',
     [],
     ''2. Content Restrictions:'',
     ''   - Base all responses strictly on the provided context and conversation history'',
     ''   - Do not use any external knowledge'',
     ''   - Avoid making assumptions beyond what is explicitly stated'',
     ''   - Format numerical data and statistics exactly as they appear in the context'',
     [],
     ''3. Response Guidelines:'',
     ''   - When information is available: Provide accurate answers while maintaining a'' @
      '' conversational tone'',
     ''   - When information is missing: Say '' @
      [CHR 0x22] @
      ''I wish I could help with that, but I don'' @
      [CHR 0x27] @
      ''t have enough information in the provided documentation to answer your question. Is'' @
      '' there something else you'' @
      [CHR 0x27] @
      ''d like to know about?'' @
      [CHR 0x22],
     ''   - For follow-up questions: Verify that previous responses were based on documented'' @
      '' content'',
     [],
     ''4. Quality Standards:'',
     ''   - Ensure accuracy while remaining approachable'',
     ''   - Balance professionalism with conversational friendliness'',
     ''   - Maintain consistency in information provided'',
     ''   - Keep responses clear and engaging'']"

definition roleplay_prompt_lines :: "string list" where
  "roleplay_prompt_lines =
    [[],
     ''This Teach-Back is an activity where the user practices a skill they just learned in an'' @
      '' online course. Refer to the course storyboard as well as the course assessment to'' @
      '' provide you with context. This activity will be scored and should reference only the'' @
      '' material in the uploaded documents. You may reference other material in your feedback,'' @
      '' but the scoring should be based solely on the course content. This activity is in'' @
      '' section 2.2 of course 103. I have outlined how the activity is structured below.'',
     [],
     ''When the user clicks '' @
      [CHR 0x22] @
      ''begin,'' @
      [CHR 0x22] @
      '' briefly describe the activity as a teach-back in which they'' @
      [CHR 0x27] @
      ''ll receive personalized feedback based on their answer. Also, state the two rubric'' @
      '' areas (Comprehensiveness and Clarity & Structure, each accounting for 4 points) and'' @
      '' what a passing score is. Then, show the question: '' @
      [CHR 0x22] @
      ''Explain how drug pricing benchmarks impact pharmacy costs and reimbursement, and why'' @
      '' this matters in pharmacy benefits consulting.'' @
      [CHR 0x22],
     [],
     ''After they submit their answer, grade them based on the rubric below and show them'' @
      '' their score in each rubric area, along with what could be improved. Continue providing'' @
      '' guidance to refine their answer until they achieve a score of 8/8, then summarize'' @
      '' their response into a final statement and congratulate them. Instruct them to proceed'' @
      '' in the course.'',
     [],
     ''When a user clicks '' @
      [CHR 0x22] @
      ''instructions,'' @
      [CHR 0x22] @
      '' explain in detail how the activity works and highlight that they are aiming for'' @
      '' mastery, and you will support them in achieving it. Show the full rubric and what'' @
      '' their response should include (the 3 bullets below).'',
     [],
     ''The user'' @
      [CHR 0x27] @
      ''s response should include:'',
     [],
     [CHR 0xE2, CHR 0x9C, CHR 0x94] @
      '' A clear explanation of key drug pricing benchmarks (AWP, WAC, MAC, NADAC) and how they'' @
      '' function.'',
     [],
     [CHR 0xE2, CHR 0x9C, CHR 0x94] @
      '' An analysis of how these benchmarks influence pharmacy costs and reimbursement'' @
      '' structures.'',
     [],
     [CHR 0xE2, CHR 0x9C, CHR 0x94] @
      '' A connection to pharmacy benefits consulting, including how understanding benchmarks'' @
      '' supports cost management and plan design.'',
     [],
     ''Evaluation Criteria: The user'' @
      [CHR 0x27] @
      ''s response will be scored based on the rubric below, with a total of 8 possible points.'' @
      '' To pass, they need at least 6 points.'',
     [],
     ''Scoring Rubric (8 Points Total)'',
     [],
     ''Comprehensiveness'',
     [],
     ''4: Clearly defines key drug pricing benchmarks, explains their role in pharmacy costs'' @
      '' and reimbursement, and connects them to pharmacy benefits consulting.'',
     [],
     ''3: Mentions key drug pricing benchmarks and cost impact but lacks a full explanation or'' @
      '' consulting connection.'',
     [],
     ''2: Provides a vague or incomplete definition of drug pricing benchmarks with little'' @
      '' explanation of cost impact or relevance to consulting.'',
     [],
     ''1: Response is unclear, incorrect, or missing key details.'',
     [],
     ''Clarity & Structure'',
     [],
     ''4: Explanation is clear, well-organized, and easy to follow.'',
     [],
     ''3: Mostly clear but could be better structured or more concise.'',
     [],
     ''2: Somewhat unclear or disorganized.'',
     [],
     ''1: Hard to follow or confusing.'',
     [],
     [CHR 0xE2, CHR 0x9C, CHR 0x85] @
      '' Passing Score: 6+ out of '',
     [],
     ''Example Response: '',
     ''Drug pricing benchmarks are essential in pharmacy benefits consulting as they determine'' @
      '' how pharmacies are reimbursed and influence overall drug costs. AWP (Average Wholesale'' @
      '' Price) is a benchmark for estimating drug prices, though often inflated. WAC'' @
      '' (Wholesale Acquisition Cost) is the manufacturer'' @
      [CHR 0x27] @
      ''s list price before rebates. MAC (Maximum Allowable Cost) limits reimbursement for'' @
      '' generics, while NADAC (National Average Drug Acquisition Cost) reflects actual'' @
      '' pharmacy costs. Consultants use these benchmarks to negotiate pricing, optimize'' @
      '' formulary management, and control plan costs effectively.'',
     []]"

definition LF :: string where
  "LF = [CHR 0x0A]"

fun SYSTEM_PROMPTS :: "Persona \<Rightarrow> string" where
  "SYSTEM_PROMPTS general = join LF general_prompt_lines"
| "SYSTEM_PROMPTS roleplay = join LF roleplay_prompt_lines"

definition greetings :: "string list" where
  "greetings =
    [[CHR 0xF0, CHR 0x9F, CHR 0x91, CHR 0x8B] @ '' Hello! How can I assist you today?'',
     ''Hi there! '' @ [CHR 0xF0, CHR 0x9F, CHR 0x98, CHR 0x8A] @ '' What can I help you with?'',
     [CHR 0xF0, CHR 0x9F, CHR 0x91, CHR 0x8B] @ '' Hey! Ready to help you with any questions!'',
     ''Hello! '' @ [CHR 0xF0, CHR 0x9F, CHR 0x8C, CHR 0x9F] @ '' How may I be of assistance?'',
     ''Hi! '' @ [CHR 0xF0, CHR 0x9F, CHR 0x98, CHR 0x83] @ '' Looking forward to helping you today!'']"

text \<open>
  \<^verbatim>\<open>Math.random()\<close> returns a double in \<open>[0, 1)\<close>. Such a double is
  \<open>significand / 2 ^ scale\<close> with a significand below \<open>2 ^ 53\<close> and a scale of at most
  1074, and every such quotient below 1 is a double.
\<close>

record unit_double =
  significand :: nat
  scale :: nat

definition is_unit_double :: "unit_double \<Rightarrow> bool" where
  "is_unit_double d =
     (significand d < 2 ^ 53 \<and> scale d \<le> 1074 \<and> significand d < 2 ^ scale d)"

text \<open>
  The product of two doubles is the exact product rounded to a significand of 53 bits,
  to the nearest and on a tie to the even one. \<open>round53\<close> is that rounding on the
  significand of the exact product, for a product below \<open>2 ^ 56\<close> (a significand below
  \<open>2 ^ 53\<close> times an array length below 8): \<open>excess_bits\<close> is how many bits it has past 53.
  The exponent stays that of the factor, and neither overflow nor underflow can occur.
\<close>

definition excess_bits :: "nat \<Rightarrow> nat" where
  "excess_bits n =
     (if n < 2 ^ 53 then 0 else if n < 2 ^ 54 then 1 else if n < 2 ^ 55 then 2 else 3)"

definition round53 :: "nat \<Rightarrow> nat" where
  "round53 n =
     (let s = excess_bits n; q = n div 2 ^ s; r = n mod 2 ^ s
      in if 2 ^ s < 2 * r \<or> (2 * r = 2 ^ s \<and> odd q) then (q + 1) * 2 ^ s else q * 2 ^ s)"

text \<open>
  \<^verbatim>\<open>Math.floor(Math.random() * greetings.length)\<close>: the rounded product is
  \<open>round53 (significand * length) / 2 ^ scale\<close>, and its floor is the integer quotient.
\<close>

definition random_index :: "unit_double \<Rightarrow> nat" where
  "random_index random =
     round53 (significand random * length greetings) div 2 ^ scale random"

text \<open>
  \<^verbatim>\<open>greetings[Math.floor(Math.random() * greetings.length)]\<close>, with the value of
  \<^verbatim>\<open>Math.random()\<close> as the argument. An index outside the array reads \<^verbatim>\<open>undefined\<close>.
\<close>

definition getGreetingResponse :: "unit_double \<Rightarrow> jsval" where
  "getGreetingResponse random =
     (let i = random_index random
      in if i < length greetings then JStr (greetings ! i) else JUndefined)"

definition isValidPersona :: "jsval \<Rightarrow> bool" where
  "isValidPersona persona = (persona \<in> set [JStr ''general'', JStr ''roleplay''])"

text \<open>
  \<^verbatim>\<open>isValidPersona(rawPersona) ? rawPersona : 'general'\<close>: the type guard narrows the value
  to one of the two names.
\<close>

definition select_persona :: "jsval \<Rightarrow> Persona" where
  "select_persona rawPersona =
     (if isValidPersona rawPersona
      then (if rawPersona = JStr ''roleplay'' then roleplay else general)
      else general)"

section \<open>Reading the request\<close>

text \<open>
  \<^verbatim>\<open>await req.json()\<close> either rejects (the body is not JSON) or resolves to a value.
\<close>

datatype request = InvalidJSON | Body jsval

definition req_json :: "request \<Rightarrow> error + jsval" where
  "req_json req = (case req of InvalidJSON \<Rightarrow> Inl SyntaxError | Body v \<Rightarrow> Inr v)"

text \<open>
  \<^verbatim>\<open>const { messages, userId, persona: rawPersona = 'general' } = ...\<close>: destructuring
  \<^verbatim>\<open>null\<close> throws; the default applies to \<^verbatim>\<open>undefined\<close> only.
\<close>

fun destructure :: "jsval \<Rightarrow> error + (jsval \<times> jsval \<times> jsval)" where
  "destructure JUndefined = Inl TypeError"
| "destructure JNull = Inl TypeError"
| "destructure (JObj kvs) =
     Inr (lookup kvs ''messages'', lookup kvs ''userId'',
          (if lookup kvs ''persona'' = JUndefined then JStr ''general''
           else lookup kvs ''persona''))"
| "destructure v = Inr (JUndefined, JUndefined, JStr ''general'')"

text \<open>
  \<^verbatim>\<open>messages[messages.length - 1]\<close>. An empty array or string reads index \<open>-1\<close>, which is
  \<^verbatim>\<open>undefined\<close>; a number or boolean has no \<^verbatim>\<open>length\<close>, and the index \<^verbatim>\<open>NaN\<close> reads
  \<^verbatim>\<open>undefined\<close> too. For a parsed object the expression depends on what its
  \<^verbatim>\<open>length\<close> key holds, but the statement after it, \<^verbatim>\<open>messages.slice(0, -1)\<close>, throws
  a \<^verbatim>\<open>TypeError\<close> for every parsed object (no JSON value is callable) and nothing
  happens in between, so the model throws here.
\<close>

fun last_message :: "jsval \<Rightarrow> error + jsval" where
  "last_message JUndefined = Inl TypeError"
| "last_message JNull = Inl TypeError"
| "last_message (JArr xs) = Inr (if xs = [] then JUndefined else last xs)"
| "last_message (JStr s) = Inr (if s = [] then JUndefined else JStr [last s])"
| "last_message (JObj kvs) = Inl TypeError"
| "last_message v = Inr JUndefined"

text \<open>\<^verbatim>\<open>messages.slice(0, -1)\<close>: only arrays and strings have the method.\<close>

fun slice_0_minus_1 :: "jsval \<Rightarrow> error + jsval" where
  "slice_0_minus_1 (JArr xs) = Inr (JArr (butlast xs))"
| "slice_0_minus_1 (JStr s) = Inr (JStr (butlast s))"
| "slice_0_minus_1 v = Inl TypeError"

text \<open>\<^verbatim>\<open>isGreeting(userQuery)\<close> calls \<^verbatim>\<open>query.trim()\<close>, which only a string has.\<close>

fun isGreeting_call :: "jsval \<Rightarrow> error + bool" where
  "isGreeting_call (JStr query) = Inr (isGreeting query)"
| "isGreeting_call v = Inl TypeError"

text \<open>
  \<^verbatim>\<open>...previousMessages\<close> in an array literal: the elements of an array, the characters
  of a string (which no request reaches: a string \<^verbatim>\<open>messages\<close> has an undefined
  \<^verbatim>\<open>userQuery\<close>), and a \<^verbatim>\<open>TypeError\<close> for a value that is not iterable.
\<close>

fun spread :: "jsval \<Rightarrow> error + jsval list" where
  "spread (JArr xs) = Inr xs"
| "spread (JStr s) = Inr (map (\<lambda>c. JStr [c]) s)"
| "spread v = Inl TypeError"

definition message :: "string \<Rightarrow> jsval \<Rightarrow> jsval" where
  "message role content = JObj [(''role'', JStr role), (''content'', content)]"

text \<open>
  \<^verbatim>\<open>previousMessages.map(msg => ({ role: msg.role, content: msg.content }))\<close>: the callback
  throws on a \<^verbatim>\<open>null\<close> element, and \<^verbatim>\<open>map\<close> stops at the first throw.
\<close>

definition role_and_content :: "jsval \<Rightarrow> error + jsval" where
  "role_and_content msg =
     (case get_prop msg ''role'' of
        Inl e \<Rightarrow> Inl e
      | Inr r \<Rightarrow>
          (case get_prop msg ''content'' of
             Inl e \<Rightarrow> Inl e
           | Inr c \<Rightarrow> Inr (JObj [(''role'', r), (''content'', c)])))"

fun map_role_and_content :: "jsval list \<Rightarrow> error + jsval list" where
  "map_role_and_content [] = Inr []"
| "map_role_and_content (msg # msgs) =
     (case role_and_content msg of
        Inl e \<Rightarrow> Inl e
      | Inr m \<Rightarrow>
          (case map_role_and_content msgs of
             Inl e \<Rightarrow> Inl e
           | Inr ms \<Rightarrow> Inr (m # ms)))"

fun previousMessages_map :: "jsval \<Rightarrow> error + jsval list" where
  "previousMessages_map (JArr xs) = map_role_and_content xs"
| "previousMessages_map v = Inl TypeError"

section \<open>The external services\<close>

text \<open>
  The embedding provider, the vector store, the completion provider and the memory store
  are outside the repository. Each is a field of the environment that says what the
  service answers; the handler returns, beside its result, the list of the calls it made,
  in order. A call that fails is in the list: it was attempted.

  The vector store holds the table \<^verbatim>\<open>documents_2\<close>; \<^verbatim>\<open><=>\<close> is its cosine distance
  operator. Scores are real numbers here, not floating-point values.
\<close>

type_synonym vec = "real list"

type_synonym stream = "string list"

record row =
  contents :: string
  vector :: vec

datatype call =
    EmbeddingsCreate string
  | PoolQuery vec
  | StreamText jsval "jsval list"
  | AddMemories "jsval list" jsval

record env =
  embeddings_create :: "string \<Rightarrow> error + vec"
  pool_query_fault :: "vec \<Rightarrow> error option"
  documents_2 :: "row list"
  cosine_distance :: "vec \<Rightarrow> vec \<Rightarrow> real"
  streamText :: "jsval \<Rightarrow> jsval list \<Rightarrow> error + stream"
  addMemories :: "jsval list \<Rightarrow> jsval \<Rightarrow> error option"
  Math_random :: unit_double

definition getQueryEmbedding :: "env \<Rightarrow> string \<Rightarrow> (error + vec) \<times> call list" where
  "getQueryEmbedding env query = (embeddings_create env query, [EmbeddingsCreate query])"

text \<open>
  The query of \<^verbatim>\<open>findSimilarContent\<close>:
  \<^verbatim>\<open>SELECT contents, 1 - (vector <=> $1::vector) as similarity FROM documents_2
  WHERE 1 - (vector <=> $1::vector) > 0.7 ORDER BY similarity DESC LIMIT 5\<close>.
  Rows of equal similarity come in the order the store likes; the model keeps the table's
  order among them (a stable sort), and the table's order is arbitrary.
\<close>

definition similarity :: "env \<Rightarrow> vec \<Rightarrow> row \<Rightarrow> real" where
  "similarity env embedding r = 1 - cosine_distance env (vector r) embedding"

definition select_similar :: "env \<Rightarrow> vec \<Rightarrow> row list" where
  "select_similar env embedding =
     take 5
       (sort_key (\<lambda>r. - similarity env embedding r)
          (filter (\<lambda>r. similarity env embedding r > 7 / 10) (documents_2 env)))"

definition findSimilarContent :: "env \<Rightarrow> vec \<Rightarrow> (error + string) \<times> call list" where
  "findSimilarContent env embedding =
     ((case pool_query_fault env embedding of
         Some e \<Rightarrow> Inl e
       | None \<Rightarrow> Inr (join (LF @ LF) (map contents (select_similar env embedding)))),
      [PoolQuery embedding])"

section \<open>The handler\<close>

datatype response = DataStreamResponse stream | JsonResponse nat jsval

text \<open>The branch of a greeting (lines 173 to 211 of the route).\<close>

definition greeting_branch ::
  "env \<Rightarrow> Persona \<Rightarrow> jsval \<Rightarrow> string \<Rightarrow> jsval \<Rightarrow> (error + stream) \<times> call list" where
  "greeting_branch env persona userId userQuery previousMessages =
     (let greetingResponse = getGreetingResponse (Math_random env) in
      case spread previousMessages of
        Inl e \<Rightarrow> (Inl e, [])
      | Inr previous \<Rightarrow>
          (let messages =
                 [message ''system'' (JStr (SYSTEM_PROMPTS persona))] @ previous @
                 [message ''user'' (JStr userQuery), message ''assistant'' greetingResponse];
               greetingMessages =
                 [message ''user'' (JStr userQuery), message ''assistant'' greetingResponse]
           in case streamText env userId messages of
                Inl e \<Rightarrow> (Inl e, [StreamText userId messages])
              | Inr result \<Rightarrow>
                  (case addMemories env (previous @ greetingMessages) userId of
                     Some e \<Rightarrow>
                       (Inl e,
                        [StreamText userId messages,
                         AddMemories (previous @ greetingMessages) userId])
                   | None \<Rightarrow>
                       (Inr result,
                        [StreamText userId messages,
                         AddMemories (previous @ greetingMessages) userId]))))"

text \<open>The regular branch (lines 213 to 267).\<close>

definition systemPrompt :: "Persona \<Rightarrow> string \<Rightarrow> string" where
  "systemPrompt persona similarContent =
     SYSTEM_PROMPTS persona @ LF @ LF @ ''Documentation Context: '' @ similarContent"

definition regular_branch ::
  "env \<Rightarrow> Persona \<Rightarrow> jsval \<Rightarrow> string \<Rightarrow> jsval \<Rightarrow> (error + stream) \<times> call list" where
  "regular_branch env persona userId userQuery previousMessages =
     (case getQueryEmbedding env userQuery of
        (Inl e, calls1) \<Rightarrow> (Inl e, calls1)
      | (Inr embedding, calls1) \<Rightarrow>
          (case findSimilarContent env embedding of
             (Inl e, calls2) \<Rightarrow> (Inl e, calls1 @ calls2)
           | (Inr similarContent, calls2) \<Rightarrow>
               (case previousMessages_map previousMessages of
                  Inl e \<Rightarrow> (Inl e, calls1 @ calls2)
                | Inr previous \<Rightarrow>
                    (let updatedMessages =
                           [message ''system'' (JStr (systemPrompt persona similarContent))] @
                           previous @ [message ''user'' (JStr userQuery)]
                     in case streamText env userId updatedMessages of
                          Inl e \<Rightarrow> (Inl e, calls1 @ calls2 @ [StreamText userId updatedMessages])
                        | Inr result \<Rightarrow>
                            (let finalMessages = updatedMessages
                             in case addMemories env finalMessages userId of
                                  Some e \<Rightarrow>
                                    (Inl e,
                                     calls1 @ calls2 @
                                     [StreamText userId updatedMessages,
                                      AddMemories finalMessages userId])
                                | None \<Rightarrow>
                                    (Inr result,
                                     calls1 @ calls2 @
                                     [StreamText userId updatedMessages,
                                      AddMemories finalMessages userId]))))))"

text \<open>The body of the \<^verbatim>\<open>try\<close> block: the first throw ends it.\<close>

definition try_block :: "env \<Rightarrow> request \<Rightarrow> (error + stream) \<times> call list" where
  "try_block env req =
     (case req_json req of
        Inl e \<Rightarrow> (Inl e, [])
      | Inr body \<Rightarrow>
          (case destructure body of
             Inl e \<Rightarrow> (Inl e, [])
           | Inr (messages, userId, rawPersona) \<Rightarrow>
               (let persona = select_persona rawPersona in
                case last_message messages of
                  Inl e \<Rightarrow> (Inl e, [])
                | Inr lastMessage \<Rightarrow>
                    (case get_prop lastMessage ''content'' of
                       Inl e \<Rightarrow> (Inl e, [])
                     | Inr userQuery \<Rightarrow>
                         (case slice_0_minus_1 messages of
                            Inl e \<Rightarrow> (Inl e, [])
                          | Inr previousMessages \<Rightarrow>
                              (case isGreeting_call userQuery of
                                 Inl e \<Rightarrow> (Inl e, [])
                               | Inr greeting \<Rightarrow>
                                   (case userQuery of
                                      JStr query \<Rightarrow>
                                        (if greeting
                                         then greeting_branch env persona userId query
                                                previousMessages
                                         else regular_branch env persona userId query
                                                previousMessages)
                                    | _ \<Rightarrow> (Inl TypeError, []))))))))"

text \<open>
  \<^verbatim>\<open>POST\<close>: the stream on success; on any throw the \<^verbatim>\<open>catch\<close> answers with status 500
  and the body \<^verbatim>\<open>{"error":"Internal Server Error"}\<close>.
\<close>

definition internal_server_error :: response where
  "internal_server_error = JsonResponse 500 (JObj [(''error'', JStr ''Internal Server Error'')])"

definition POST :: "env \<Rightarrow> request \<Rightarrow> response \<times> call list" where
  "POST env req =
     (case try_block env req of
        (Inl e, calls) \<Rightarrow> (internal_server_error, calls)
      | (Inr result, calls) \<Rightarrow> (DataStreamResponse result, calls))"


section \<open>Vocabulary of the statements\<close>

text \<open>
  The text of the latest message of a request, when the body is an object whose
  \<^verbatim>\<open>messages\<close> is a non-empty array that ends with an object with a string \<^verbatim>\<open>content\<close>.
  It is defined by the shape of the body alone; that the handler reads exactly this is
  the lemmas \<open>try_block_query\<close> and \<open>try_block_no_query\<close>.
\<close>

fun content_of :: "jsval \<Rightarrow> string option" where
  "content_of (JObj m) = (case lookup m ''content'' of JStr q \<Rightarrow> Some q | _ \<Rightarrow> None)"
| "content_of v = None"

fun latest_of :: "jsval \<Rightarrow> string option" where
  "latest_of (JArr msgs) = (if msgs = [] then None else content_of (last msgs))"
| "latest_of v = None"

fun latest_query :: "request \<Rightarrow> string option" where
  "latest_query (Body (JObj kvs)) = latest_of (lookup kvs ''messages'')"
| "latest_query req = None"

text \<open>The service a call goes to.\<close>

datatype service = EmbeddingProvider | VectorStore | CompletionProvider | MemoryStore

fun service_of :: "call \<Rightarrow> service" where
  "service_of (EmbeddingsCreate query) = EmbeddingProvider"
| "service_of (PoolQuery embedding) = VectorStore"
| "service_of (StreamText userId messages) = CompletionProvider"
| "service_of (AddMemories messages userId) = MemoryStore"

text \<open>
  A body as the route's types describe it: \<^verbatim>\<open>interface Message\<close> (a role out of three and
  a string content) for every element of \<^verbatim>\<open>messages\<close>, a string \<^verbatim>\<open>userId\<close>, and a
  \<^verbatim>\<open>persona\<close> that is absent or a string.
\<close>

fun is_Message :: "jsval \<Rightarrow> bool" where
  "is_Message (JObj m) =
     (lookup m ''role'' \<in> set [JStr ''system'', JStr ''user'', JStr ''assistant''] \<and>
      (case lookup m ''content'' of JStr c \<Rightarrow> True | _ \<Rightarrow> False))"
| "is_Message v = False"

fun is_string :: "jsval \<Rightarrow> bool" where
  "is_string (JStr s) = True"
| "is_string v = False"

fun well_formed :: "request \<Rightarrow> bool" where
  "well_formed (Body (JObj kvs)) =
     ((case lookup kvs ''messages'' of JArr msgs \<Rightarrow> list_all is_Message msgs | _ \<Rightarrow> False) \<and>
      is_string (lookup kvs ''userId'') \<and>
      (lookup kvs ''persona'' = JUndefined \<or> is_string (lookup kvs ''persona'')))"
| "well_formed req = False"

section \<open>A sample environment and sample requests\<close>

text \<open>
  A store of three passages with unit vectors, for which the cosine distance is one minus
  the dot product; every service answers. The embedding of every query is \<open>[1, 0]\<close>, so
  the passages score 0, 4/5 and 1. \<^verbatim>\<open>Math.random()\<close> returns the double nearest to 0.6,
  which is \<open>5404319552844595 / 2 ^ 53\<close>.
\<close>

definition unit_cosine_distance :: "vec \<Rightarrow> vec \<Rightarrow> real" where
  "unit_cosine_distance v w = 1 - sum_list (map2 (*) v w)"

definition sample_documents :: "row list" where
  "sample_documents =
    [\<lparr>contents = ''Unrelated passage'', vector = [0, 1]\<rparr>,
     \<lparr>contents = ''WAC is the list price'', vector = [4 / 5, 3 / 5]\<rparr>,
     \<lparr>contents = ''AWP is a benchmark'', vector = [1, 0]\<rparr>]"

definition sample_env :: env where
  "sample_env =
    \<lparr>embeddings_create = (\<lambda>query. Inr [1, 0]),
     pool_query_fault = (\<lambda>embedding. None),
     documents_2 = sample_documents,
     cosine_distance = unit_cosine_distance,
     streamText = (\<lambda>userId messages. Inr [''chunk'']),
     addMemories = (\<lambda>messages userId. None),
     Math_random = \<lparr>significand = 5404319552844595, scale = 53\<rparr>\<rparr>"

text \<open>The same with a store in which no passage clears the threshold.\<close>

definition no_match_env :: env where
  "no_match_env =
     sample_env\<lparr>documents_2 := [\<lparr>contents = ''Unrelated passage'', vector = [0, 1]\<rparr>]\<rparr>"

text \<open>Eight passages of which seven clear the threshold, two of them with equal scores.\<close>

definition crowded_env :: env where
  "crowded_env =
     sample_env\<lparr>documents_2 :=
       [\<lparr>contents = ''p1'', vector = [4 / 5, 3 / 5]\<rparr>,
        \<lparr>contents = ''p2'', vector = [1, 0]\<rparr>,
        \<lparr>contents = ''p3'', vector = [3 / 5, 4 / 5]\<rparr>,
        \<lparr>contents = ''p4'', vector = [12 / 13, 5 / 13]\<rparr>,
        \<lparr>contents = ''p5'', vector = [24 / 25, 7 / 25]\<rparr>,
        \<lparr>contents = ''p6'', vector = [15 / 17, 8 / 17]\<rparr>,
        \<lparr>contents = ''p7'', vector = [24 / 25, - 7 / 25]\<rparr>,
        \<lparr>contents = ''p8'', vector = [35 / 37, 12 / 37]\<rparr>]\<rparr>"

definition chat_fields :: "jsval \<Rightarrow> jsval list \<Rightarrow> (string \<times> jsval) list" where
  "chat_fields persona msgs =
     [(''messages'', JArr msgs), (''userId'', JStr ''u1''), (''persona'', persona)]"

definition awp_turn :: jsval where
  "awp_turn = JObj [(''role'', JStr ''user''), (''content'', JStr ''What is AWP?'')]"

definition hello_turn :: jsval where
  "hello_turn = JObj [(''role'', JStr ''user''), (''content'', JStr ''Hello'')]"

definition answer_turn :: jsval where
  "answer_turn = JObj [(''role'', JStr ''assistant''), (''content'', JStr ''AWP is a benchmark'')]"

definition wac_turn :: jsval where
  "wac_turn = JObj [(''role'', JStr ''user''), (''content'', JStr ''And WAC?'')]"

definition sample_context :: string where
  "sample_context = ''AWP is a benchmark'' @ [CHR 0x0A, CHR 0x0A] @ ''WAC is the list price''"


section \<open>What the handler does with a request\<close>

lemma try_block_query:
  assumes "lookup kvs ''messages'' = JArr msgs" "msgs \<noteq> []" "last msgs = JObj m"
    "lookup m ''content'' = JStr q"
  shows "try_block env (Body (JObj kvs)) =
    (if isGreeting q
     then greeting_branch env
            (select_persona (if lookup kvs ''persona'' = JUndefined then JStr ''general''
                             else lookup kvs ''persona''))
            (lookup kvs ''userId'') q (JArr (butlast msgs))
     else regular_branch env
            (select_persona (if lookup kvs ''persona'' = JUndefined then JStr ''general''
                             else lookup kvs ''persona''))
            (lookup kvs ''userId'') q (JArr (butlast msgs)))"
  using assms by (simp add: try_block_def req_json_def)

lemma try_block_greeting:
  assumes "lookup kvs ''messages'' = JArr msgs" "msgs \<noteq> []" "last msgs = JObj m"
    "lookup m ''content'' = JStr q" "isGreeting q"
  shows "try_block env (Body (JObj kvs)) =
    greeting_branch env
      (select_persona (if lookup kvs ''persona'' = JUndefined then JStr ''general''
                       else lookup kvs ''persona''))
      (lookup kvs ''userId'') q (JArr (butlast msgs))"
  using assms by (simp add: try_block_query)

lemma try_block_regular:
  assumes "lookup kvs ''messages'' = JArr msgs" "msgs \<noteq> []" "last msgs = JObj m"
    "lookup m ''content'' = JStr q" "\<not> isGreeting q"
  shows "try_block env (Body (JObj kvs)) =
    regular_branch env
      (select_persona (if lookup kvs ''persona'' = JUndefined then JStr ''general''
                       else lookup kvs ''persona''))
      (lookup kvs ''userId'') q (JArr (butlast msgs))"
  using assms by (simp add: try_block_query)

lemma latest_query_SomeD:
  assumes "latest_query req = Some q"
  shows "\<exists>kvs msgs m. req = Body (JObj kvs) \<and> lookup kvs ''messages'' = JArr msgs \<and>
           msgs \<noteq> [] \<and> last msgs = JObj m \<and> lookup m ''content'' = JStr q"
proof -
  from assms obtain kvs where req: "req = Body (JObj kvs)"
    by (cases req rule: latest_query.cases) auto
  with assms have l: "latest_of (lookup kvs ''messages'') = Some q"
    by simp
  then obtain msgs where msgs: "lookup kvs ''messages'' = JArr msgs"
    by (cases "lookup kvs ''messages''") auto
  with l have ne: "msgs \<noteq> []" and c: "content_of (last msgs) = Some q"
    by (auto split: if_splits)
  from c obtain m where m: "last msgs = JObj m"
    by (cases "last msgs") auto
  with c have "lookup m ''content'' = JStr q"
    by (auto split: jsval.splits)
  with req msgs ne m show ?thesis
    by blast
qed

lemma try_block_no_query:
  assumes "latest_query req = None"
  shows "\<exists>e. try_block env req = (Inl e, [])"
proof (cases req)
  case InvalidJSON
  then show ?thesis
    by (simp add: try_block_def req_json_def)
next
  case (Body body)
  show ?thesis
  proof (cases body)
    case (JObj kvs)
    with Body assms have l: "latest_of (lookup kvs ''messages'') = None"
      by simp
    show ?thesis
    proof (cases "lookup kvs ''messages''")
      case (JArr msgs)
      show ?thesis
      proof (cases "msgs = []")
        case True
        with Body JObj JArr show ?thesis
          by (simp add: try_block_def req_json_def)
      next
        case False
        with l JArr have c: "content_of (last msgs) = None"
          by simp
        then show ?thesis
          using Body JObj JArr False
          by (cases "last msgs") (auto simp: try_block_def req_json_def split: jsval.splits)
      qed
    qed (use Body JObj in \<open>simp_all add: try_block_def req_json_def\<close>)
  qed (use Body in \<open>simp_all add: try_block_def req_json_def\<close>)
qed

lemma try_block_cases:
  assumes "latest_query req = Some q"
  obtains p uid prev where
    "try_block env req =
       (if isGreeting q then greeting_branch env p uid q prev
        else regular_branch env p uid q prev)"
proof -
  from assms obtain kvs msgs m where
    "req = Body (JObj kvs)" "lookup kvs ''messages'' = JArr msgs" "msgs \<noteq> []"
    "last msgs = JObj m" "lookup m ''content'' = JStr q"
    using latest_query_SomeD by blast
  then have "try_block env req =
    (if isGreeting q
     then greeting_branch env
            (select_persona (if lookup kvs ''persona'' = JUndefined then JStr ''general''
                             else lookup kvs ''persona''))
            (lookup kvs ''userId'') q (JArr (butlast msgs))
     else regular_branch env
            (select_persona (if lookup kvs ''persona'' = JUndefined then JStr ''general''
                             else lookup kvs ''persona''))
            (lookup kvs ''userId'') q (JArr (butlast msgs)))"
    using try_block_query [of kvs msgs m q env] by simp
  then show thesis
    by (rule that)
qed

lemma snd_POST: "snd (POST env req) = snd (try_block env req)"
  by (simp add: POST_def split: prod.splits sum.splits)

subsection \<open>The greeting branch\<close>

lemma greeting_branch_services:
  "c \<in> set (snd (greeting_branch env p uid q prev)) \<Longrightarrow>
   service_of c \<noteq> EmbeddingProvider \<and> service_of c \<noteq> VectorStore"
  by (auto simp: greeting_branch_def Let_def split: sum.splits option.splits)

lemma greeting_branch_once:
  "length (filter (\<lambda>c. service_of c = k) (snd (greeting_branch env p uid q prev))) \<le> 1"
  by (auto simp: greeting_branch_def Let_def split: sum.splits option.splits)

lemma greeting_branch_stream:
  "StreamText u msgs \<in> set (snd (greeting_branch env p uid q prev)) \<Longrightarrow>
   \<exists>rest. msgs = message ''system'' (JStr (SYSTEM_PROMPTS p)) # rest"
  by (auto simp: greeting_branch_def Let_def split: sum.splits option.splits)

lemma greeting_branch_eq:
  "greeting_branch env p uid q (JArr previous) =
     (case streamText env uid
             (message ''system'' (JStr (SYSTEM_PROMPTS p)) # previous @
              [message ''user'' (JStr q),
               message ''assistant'' (getGreetingResponse (Math_random env))]) of
        Inl e \<Rightarrow>
          (Inl e,
           [StreamText uid
              (message ''system'' (JStr (SYSTEM_PROMPTS p)) # previous @
               [message ''user'' (JStr q),
                message ''assistant'' (getGreetingResponse (Math_random env))])])
      | Inr result \<Rightarrow>
          (case addMemories env
                  (previous @
                   [message ''user'' (JStr q),
                    message ''assistant'' (getGreetingResponse (Math_random env))])
                  uid of
             Some e \<Rightarrow>
               (Inl e,
                [StreamText uid
                   (message ''system'' (JStr (SYSTEM_PROMPTS p)) # previous @
                    [message ''user'' (JStr q),
                     message ''assistant'' (getGreetingResponse (Math_random env))]),
                 AddMemories
                   (previous @
                    [message ''user'' (JStr q),
                     message ''assistant'' (getGreetingResponse (Math_random env))])
                   uid])
           | None \<Rightarrow>
               (Inr result,
                [StreamText uid
                   (message ''system'' (JStr (SYSTEM_PROMPTS p)) # previous @
                    [message ''user'' (JStr q),
                     message ''assistant'' (getGreetingResponse (Math_random env))]),
                 AddMemories
                   (previous @
                    [message ''user'' (JStr q),
                     message ''assistant'' (getGreetingResponse (Math_random env))])
                   uid])))"
  by (simp add: greeting_branch_def Let_def)

lemma greetings_length: "length greetings = 5"
  by (simp add: greetings_def)


lemma pow_excess_bits_le: "(2::nat) ^ excess_bits n \<le> 8"
  by (simp add: excess_bits_def)



lemma round53_upper: "round53 n \<le> n + 4"
proof -
  define P :: nat where "P = 2 ^ excess_bits n"
  define q where "q = n div P"
  define r where "r = n mod P"
  have n: "n = q * P + r"
    by (simp add: q_def r_def)
  have P: "P \<le> 8"
    unfolding P_def by (rule pow_excess_bits_le)
  have "round53 n = (if P < 2 * r \<or> (2 * r = P \<and> odd q) then (q + 1) * P else q * P)"
    by (simp add: round53_def Let_def P_def q_def r_def)
  moreover have "(q + 1) * P \<le> n + 4" if "P \<le> 2 * r"
    using that P n by (simp add: algebra_simps)
  moreover have "q * P \<le> n + 4"
    using n by simp
  ultimately show ?thesis
    by auto
qed



lemma random_index_less:
  assumes "is_unit_double d"
  shows "random_index d < 5"
proof -
  from assms have "significand d + 1 \<le> 2 ^ scale d"
    by (simp add: is_unit_double_def)
  then have "(significand d + 1) * 5 \<le> 2 ^ scale d * 5"
    by (rule mult_le_mono1)
  then have "significand d * 5 + 4 < 5 * 2 ^ scale d"
    by simp
  with round53_upper [of "significand d * 5"]
  have "round53 (significand d * 5) < 5 * 2 ^ scale d"
    by linarith
  then show ?thesis
    by (simp add: random_index_def greetings_length less_mult_imp_div_less)
qed



lemma getGreetingResponse_unit_double:
  assumes "is_unit_double d"
  shows "getGreetingResponse d = JStr (greetings ! random_index d)"
  using random_index_less [OF assms] by (simp add: getGreetingResponse_def greetings_length)


subsection \<open>The regular branch\<close>

lemma regular_branch_once:
  "length (filter (\<lambda>c. service_of c = k) (snd (regular_branch env p uid q prev))) \<le> 1"
  by (auto simp: regular_branch_def getQueryEmbedding_def findSimilarContent_def Let_def
      split: sum.splits option.splits)

lemma regular_branch_stream:
  "StreamText u msgs \<in> set (snd (regular_branch env p uid q prev)) \<Longrightarrow>
   \<exists>similarContent rest.
     msgs = message ''system'' (JStr (systemPrompt p similarContent)) # rest"
  by (auto simp: regular_branch_def getQueryEmbedding_def findSimilarContent_def Let_def
      split: sum.splits option.splits)

lemma regular_branch_success:
  assumes "embeddings_create env q = Inr e"
    and "fst (findSimilarContent env e) = Inr similarContent"
    and "map_role_and_content previous = Inr prev"
    and "streamText env uid
           (message ''system'' (JStr (systemPrompt p similarContent)) # prev @
            [message ''user'' (JStr q)]) = Inr result"
    and "addMemories env
           (message ''system'' (JStr (systemPrompt p similarContent)) # prev @
            [message ''user'' (JStr q)]) uid = None"
  shows "regular_branch env p uid q (JArr previous) =
    (Inr result,
     [EmbeddingsCreate q, PoolQuery e,
      StreamText uid
        (message ''system'' (JStr (systemPrompt p similarContent)) # prev @
         [message ''user'' (JStr q)]),
      AddMemories
        (message ''system'' (JStr (systemPrompt p similarContent)) # prev @
         [message ''user'' (JStr q)]) uid])"
proof -
  from assms(2) have "findSimilarContent env e = (Inr similarContent, [PoolQuery e])"
    by (simp add: findSimilarContent_def split: option.splits)
  with assms(1,3,4,5) show ?thesis
    by (simp add: regular_branch_def getQueryEmbedding_def Let_def)
qed

lemma regular_branch_bad_history:
  assumes "embeddings_create env q = Inr e"
    and "fst (findSimilarContent env e) = Inr similarContent"
    and "map_role_and_content previous = Inl err"
  shows "regular_branch env p uid q (JArr previous) =
           (Inl err, [EmbeddingsCreate q, PoolQuery e])"
proof -
  from assms(2) have "findSimilarContent env e = (Inr similarContent, [PoolQuery e])"
    by (simp add: findSimilarContent_def split: option.splits)
  with assms(1,3) show ?thesis
    by (simp add: regular_branch_def getQueryEmbedding_def)
qed

lemma regular_branch_eq:
  assumes "embeddings_create env q = Inr e"
    and "fst (findSimilarContent env e) = Inr similarContent"
    and "map_role_and_content previous = Inr prev"
  shows "regular_branch env p uid q (JArr previous) =
    (case streamText env uid
            (message ''system'' (JStr (systemPrompt p similarContent)) # prev @
             [message ''user'' (JStr q)]) of
       Inl err \<Rightarrow>
         (Inl err,
          [EmbeddingsCreate q, PoolQuery e,
           StreamText uid
             (message ''system'' (JStr (systemPrompt p similarContent)) # prev @
              [message ''user'' (JStr q)])])
     | Inr result \<Rightarrow>
         (case addMemories env
                 (message ''system'' (JStr (systemPrompt p similarContent)) # prev @
                  [message ''user'' (JStr q)]) uid of
            Some err \<Rightarrow>
              (Inl err,
               [EmbeddingsCreate q, PoolQuery e,
                StreamText uid
                  (message ''system'' (JStr (systemPrompt p similarContent)) # prev @
                   [message ''user'' (JStr q)]),
                AddMemories
                  (message ''system'' (JStr (systemPrompt p similarContent)) # prev @
                   [message ''user'' (JStr q)]) uid])
          | None \<Rightarrow>
              (Inr result,
               [EmbeddingsCreate q, PoolQuery e,
                StreamText uid
                  (message ''system'' (JStr (systemPrompt p similarContent)) # prev @
                   [message ''user'' (JStr q)]),
                AddMemories
                  (message ''system'' (JStr (systemPrompt p similarContent)) # prev @
                   [message ''user'' (JStr q)]) uid])))"
proof -
  from assms(2) have "findSimilarContent env e = (Inr similarContent, [PoolQuery e])"
    by (simp add: findSimilarContent_def split: option.splits)
  with assms(1,3) show ?thesis
    by (simp add: regular_branch_def getQueryEmbedding_def Let_def
        split: sum.splits option.splits)
qed

lemma regular_branch_memory:
  assumes "AddMemories mem u \<in> set (snd (regular_branch env p uid q (JArr previous)))"
  shows "\<exists>e similarContent prev.
           embeddings_create env q = Inr e \<and>
           fst (findSimilarContent env e) = Inr similarContent \<and>
           map_role_and_content previous = Inr prev \<and>
           mem = message ''system'' (JStr (systemPrompt p similarContent)) # prev @
                 [message ''user'' (JStr q)]"
  using assms
  by (auto simp: regular_branch_def getQueryEmbedding_def findSimilarContent_def Let_def
      split: sum.splits option.splits)

lemma map_role_and_content_length:
  "map_role_and_content xs = Inr ys \<Longrightarrow> length ys = length xs"
  by (induction xs arbitrary: ys) (auto split: sum.splits)

lemma POST_regular_success:
  fixes env :: env and kvs :: "(string \<times> jsval) list"
  defines "uid \<equiv> lookup kvs ''userId''"
    and "p \<equiv> select_persona (if lookup kvs ''persona'' = JUndefined then JStr ''general''
                                 else lookup kvs ''persona'')"
  assumes "lookup kvs ''messages'' = JArr msgs" "msgs \<noteq> []" "last msgs = JObj m"
    "lookup m ''content'' = JStr q" "\<not> isGreeting q"
    and "embeddings_create env q = Inr e"
    and "fst (findSimilarContent env e) = Inr similarContent"
    and "map_role_and_content (butlast msgs) = Inr prev"
    and "streamText env uid
           (message ''system'' (JStr (systemPrompt p similarContent)) # prev @
            [message ''user'' (JStr q)]) = Inr result"
    and "addMemories env
           (message ''system'' (JStr (systemPrompt p similarContent)) # prev @
            [message ''user'' (JStr q)]) uid = None"
  shows "POST env (Body (JObj kvs)) =
      (DataStreamResponse result,
       [EmbeddingsCreate q, PoolQuery e,
        StreamText uid
          (message ''system'' (JStr (systemPrompt p similarContent)) # prev @
           [message ''user'' (JStr q)]),
        AddMemories
          (message ''system'' (JStr (systemPrompt p similarContent)) # prev @
           [message ''user'' (JStr q)]) uid])"
proof -
  have "try_block env (Body (JObj kvs)) = regular_branch env p uid q (JArr (butlast msgs))"
    unfolding p_def uid_def using assms(3-7) by (rule try_block_regular)
  moreover note regular_branch_success [OF assms(8-12)]
  ultimately show ?thesis
    by (simp add: POST_def)
qed

subsection \<open>The query of the vector store\<close>

lemma select_similar_length: "length (select_similar env embedding) \<le> 5"
  by (simp add: select_similar_def)

lemma select_similar_set:
  assumes "r \<in> set (select_similar env embedding)"
  shows "r \<in> set (documents_2 env) \<and> 7 / 10 < similarity env embedding r"
proof -
  define rows where
    "rows = filter (\<lambda>r. similarity env embedding r > 7 / 10) (documents_2 env)"
  have "set (select_similar env embedding) \<subseteq>
          set (sort_key (\<lambda>r. - similarity env embedding r) rows)"
    unfolding select_similar_def rows_def by (rule set_take_subset)
  with assms have "r \<in> set rows"
    by auto
  then show ?thesis
    by (simp add: rows_def)
qed

lemma select_similar_sorted:
  "sorted_wrt (\<lambda>a b. similarity env embedding b \<le> similarity env embedding a)
     (select_similar env embedding)"
proof -
  define key where "key = (\<lambda>r. - similarity env embedding r)"
  define rows where
    "rows = filter (\<lambda>r. similarity env embedding r > 7 / 10) (documents_2 env)"
  have "sorted (map key (sort_key key rows))"
    by (rule sorted_sort_key)
  then have "sorted_wrt (\<lambda>a b. key a \<le> key b) (sort_key key rows)"
    by (simp only: sorted_map)
  then have "sorted_wrt (\<lambda>a b. key a \<le> key b) (take 5 (sort_key key rows))"
    by (rule sorted_wrt_take)
  then show ?thesis
    by (simp add: select_similar_def key_def rows_def)
qed

lemma select_similar_top:
  assumes r: "r \<in> set (documents_2 env)" "7 / 10 < similarity env embedding r"
    and s: "s \<in> set (select_similar env embedding)"
    and lt: "similarity env embedding s < similarity env embedding r"
  shows "r \<in> set (select_similar env embedding)"
proof (rule ccontr)
  define key where "key = (\<lambda>r. - similarity env embedding r)"
  define rows where
    "rows = filter (\<lambda>r. similarity env embedding r > 7 / 10) (documents_2 env)"
  define ranked where "ranked = sort_key key rows"
  have sel: "select_similar env embedding = take 5 ranked"
    by (simp add: select_similar_def ranked_def key_def rows_def)
  assume "r \<notin> set (select_similar env embedding)"
  then have "r \<notin> set (take 5 ranked)"
    by (simp add: sel)
  moreover from r have "r \<in> set ranked"
    by (simp add: ranked_def rows_def)
  moreover have "set ranked = set (take 5 ranked) \<union> set (drop 5 ranked)"
    by (simp only: set_append [symmetric] append_take_drop_id)
  ultimately have rd: "r \<in> set (drop 5 ranked)"
    by blast
  from s have st: "s \<in> set (take 5 ranked)"
    by (simp add: sel)
  have "sorted (map key ranked)"
    unfolding ranked_def by (rule sorted_sort_key)
  then have "sorted_wrt (\<lambda>a b. key a \<le> key b) (take 5 ranked @ drop 5 ranked)"
    by (simp only: sorted_map append_take_drop_id)
  with st rd have "key s \<le> key r"
    unfolding sorted_wrt_append by blast
  with lt show False
    by (simp add: key_def)
qed

subsection \<open>The samples, evaluated\<close>

lemma isGreeting_Hello: "isGreeting ''Hello''"
  by code_simp

lemma not_isGreeting_AWP: "\<not> isGreeting ''What is AWP?''"
  by code_simp

lemma not_isGreeting_WAC: "\<not> isGreeting ''And WAC?''"
  by code_simp

lemma templates_differ: "SYSTEM_PROMPTS general \<noteq> SYSTEM_PROMPTS roleplay"
  by (simp add: general_prompt_lines_def roleplay_prompt_lines_def LF_def)

lemma sample_random: "is_unit_double (Math_random sample_env)"
  by (simp add: sample_env_def is_unit_double_def)

lemma sample_random_index: "random_index (Math_random sample_env) = 3"
  by (simp add: sample_env_def random_index_def round53_def excess_bits_def greetings_length)

lemma sample_greeting: "getGreetingResponse (Math_random sample_env) = JStr (greetings ! 3)"
  using getGreetingResponse_unit_double [OF sample_random] by (simp add: sample_random_index)

lemma sample_select:
  "select_similar sample_env [1, 0] =
     [\<lparr>contents = ''AWP is a benchmark'', vector = [1, 0]\<rparr>,
      \<lparr>contents = ''WAC is the list price'', vector = [4 / 5, 3 / 5]\<rparr>]"
  by (simp add: select_similar_def sample_env_def sample_documents_def similarity_def
      unit_cosine_distance_def)

lemma sample_findSimilarContent:
  "fst (findSimilarContent sample_env [1, 0]) = Inr sample_context"
proof -
  have "pool_query_fault sample_env [1, 0] = None"
    by (simp add: sample_env_def)
  then show ?thesis
    by (simp add: findSimilarContent_def sample_select LF_def sample_context_def)
qed

lemma no_match_select: "select_similar no_match_env [1, 0] = []"
  by (simp add: select_similar_def no_match_env_def sample_env_def similarity_def
      unit_cosine_distance_def)

lemma no_match_findSimilarContent: "fst (findSimilarContent no_match_env [1, 0]) = Inr []"
proof -
  have "pool_query_fault no_match_env [1, 0] = None"
    by (simp add: no_match_env_def sample_env_def)
  then show ?thesis
    by (simp add: findSimilarContent_def no_match_select)
qed

lemma crowded_select:
  "select_similar crowded_env [1, 0] =
     [\<lparr>contents = ''p2'', vector = [1, 0]\<rparr>,
      \<lparr>contents = ''p5'', vector = [24 / 25, 7 / 25]\<rparr>,
      \<lparr>contents = ''p7'', vector = [24 / 25, - 7 / 25]\<rparr>,
      \<lparr>contents = ''p8'', vector = [35 / 37, 12 / 37]\<rparr>,
      \<lparr>contents = ''p4'', vector = [12 / 13, 5 / 13]\<rparr>]"
  by (simp add: select_similar_def crowded_env_def sample_env_def similarity_def
      unit_cosine_distance_def)

lemma sample_POST_regular:
  assumes "msgs \<noteq> []" "last msgs = JObj m" "lookup m ''content'' = JStr q" "\<not> isGreeting q"
    and "map_role_and_content (butlast msgs) = Inr prev"
  shows "POST sample_env (Body (JObj (chat_fields (JStr ''roleplay'') msgs))) =
      (DataStreamResponse [''chunk''],
       [EmbeddingsCreate q, PoolQuery [1, 0],
        StreamText (JStr ''u1'')
          (message ''system'' (JStr (systemPrompt roleplay sample_context)) # prev @
           [message ''user'' (JStr q)]),
        AddMemories
          (message ''system'' (JStr (systemPrompt roleplay sample_context)) # prev @
           [message ''user'' (JStr q)]) (JStr ''u1'')])"
proof -
  let ?kvs = "chat_fields (JStr ''roleplay'') msgs"
  have uid: "lookup ?kvs ''userId'' = JStr ''u1''"
    by (simp add: chat_fields_def lookup_def)
  have p: "select_persona (if lookup ?kvs ''persona'' = JUndefined then JStr ''general''
                           else lookup ?kvs ''persona'') = roleplay"
    by (simp add: chat_fields_def lookup_def select_persona_def isValidPersona_def)
  have "POST sample_env (Body (JObj ?kvs)) =
      (DataStreamResponse [''chunk''],
       [EmbeddingsCreate q, PoolQuery [1, 0],
        StreamText (lookup ?kvs ''userId'')
          (message ''system''
             (JStr (systemPrompt
                      (select_persona (if lookup ?kvs ''persona'' = JUndefined
                                       then JStr ''general'' else lookup ?kvs ''persona''))
                      sample_context)) # prev @
           [message ''user'' (JStr q)]),
        AddMemories
          (message ''system''
             (JStr (systemPrompt
                      (select_persona (if lookup ?kvs ''persona'' = JUndefined
                                       then JStr ''general'' else lookup ?kvs ''persona''))
                      sample_context)) # prev @
           [message ''user'' (JStr q)]) (lookup ?kvs ''userId'')])"
  proof (rule POST_regular_success)
    show "lookup ?kvs ''messages'' = JArr msgs"
      by (simp add: chat_fields_def lookup_def)
    show "embeddings_create sample_env q = Inr [1, 0]"
      by (simp add: sample_env_def)
    show "fst (findSimilarContent sample_env [1, 0]) = Inr sample_context"
      by (rule sample_findSimilarContent)
  qed (use assms in \<open>simp_all add: sample_env_def\<close>)
  then show ?thesis
    by (simp only: uid p)
qed


section \<open>The claims\<close>

text \<open>
  C1. For every incoming request whose latest user message matches a greeting pattern
  (\<open>isGreeting\<close> returns true), the handler calls neither the embedding provider
  (\<open>getQueryEmbedding\<close>) nor the vector store (\<open>findSimilarContent\<close>), whatever the
  services answer.
\<close>

theorem greeting_skips_retrieval:
  assumes "latest_query req = Some q" and "isGreeting q"
  shows "\<forall>c \<in> set (snd (POST env req)).
           service_of c \<noteq> EmbeddingProvider \<and> service_of c \<noteq> VectorStore"
proof -
  from assms obtain p uid prev where
    "try_block env req = greeting_branch env p uid q prev"
    using try_block_cases [of req q env] by auto
  then show ?thesis
    using greeting_branch_services [of _ env p uid q prev] by (simp add: snd_POST)
qed

theorem greeting_skips_retrieval_witness:
  "latest_query (Body (JObj (chat_fields (JStr ''roleplay'') [hello_turn]))) = Some ''Hello'' \<and>
   isGreeting ''Hello'' \<and>
   list_all (\<lambda>c. service_of c \<noteq> EmbeddingProvider \<and> service_of c \<noteq> VectorStore)
     (snd (POST sample_env (Body (JObj (chat_fields (JStr ''roleplay'') [hello_turn])))))"
proof -
  have q: "latest_query (Body (JObj (chat_fields (JStr ''roleplay'') [hello_turn]))) =
             Some ''Hello''"
    by (simp add: chat_fields_def hello_turn_def lookup_def)
  from greeting_skips_retrieval [OF q isGreeting_Hello, of sample_env] q isGreeting_Hello
  show ?thesis
    by (simp add: list_all_iff)
qed

text \<open>
  C2, as amended. When the query of the vector store runs, the context string that
  \<open>findSimilarContent\<close> returns is the contents of the selected passages joined by two
  line feeds (a blank line between passages, not a single line feed). The selected
  passages are at most 5 rows of the table, each with similarity (one minus the cosine
  distance) strictly above 0.7, in descending order of similarity, and a row above the
  threshold is left out only if no selected row scores lower than it.
\<close>

theorem retrieved_context:
  assumes "pool_query_fault env embedding = None"
  shows "fst (findSimilarContent env embedding) =
           Inr (join [CHR 0x0A, CHR 0x0A] (map contents (select_similar env embedding))) \<and>
         length (select_similar env embedding) \<le> 5 \<and>
         (\<forall>r \<in> set (select_similar env embedding).
            r \<in> set (documents_2 env) \<and> 7 / 10 < similarity env embedding r) \<and>
         sorted_wrt (\<lambda>a b. similarity env embedding b \<le> similarity env embedding a)
           (select_similar env embedding) \<and>
         (\<forall>r \<in> set (documents_2 env). \<forall>s \<in> set (select_similar env embedding).
            7 / 10 < similarity env embedding r \<and>
            similarity env embedding s < similarity env embedding r \<longrightarrow>
            r \<in> set (select_similar env embedding))"
proof (intro conjI ballI impI)
  show "fst (findSimilarContent env embedding) =
          Inr (join [CHR 0x0A, CHR 0x0A] (map contents (select_similar env embedding)))"
    using assms by (simp add: findSimilarContent_def LF_def)
  show "length (select_similar env embedding) \<le> 5"
    by (rule select_similar_length)
  show "sorted_wrt (\<lambda>a b. similarity env embedding b \<le> similarity env embedding a)
          (select_similar env embedding)"
    by (rule select_similar_sorted)
next
  fix r
  assume "r \<in> set (select_similar env embedding)"
  then show "r \<in> set (documents_2 env)" and "7 / 10 < similarity env embedding r"
    using select_similar_set by blast+
next
  fix r s
  assume "r \<in> set (documents_2 env)" "s \<in> set (select_similar env embedding)"
    "7 / 10 < similarity env embedding r \<and>
     similarity env embedding s < similarity env embedding r"
  then show "r \<in> set (select_similar env embedding)"
    using select_similar_top by blast
qed

theorem retrieved_context_witness:
  "pool_query_fault crowded_env [1, 0] = None \<and>
   fst (findSimilarContent crowded_env [1, 0]) =
     Inr (join [CHR 0x0A, CHR 0x0A] [''p2'', ''p5'', ''p7'', ''p8'', ''p4'']) \<and>
   length (select_similar crowded_env [1, 0]) \<le> 5 \<and>
   list_all (\<lambda>r. r \<in> set (documents_2 crowded_env) \<and> 7 / 10 < similarity crowded_env [1, 0] r)
     (select_similar crowded_env [1, 0])"
proof -
  have ok: "pool_query_fault crowded_env [1, 0] = None"
    by (simp add: crowded_env_def sample_env_def)
  from retrieved_context [OF ok] have
    "fst (findSimilarContent crowded_env [1, 0]) =
       Inr (join [CHR 0x0A, CHR 0x0A] (map contents (select_similar crowded_env [1, 0])))"
    and "length (select_similar crowded_env [1, 0]) \<le> 5"
    and "\<forall>r \<in> set (select_similar crowded_env [1, 0]).
           r \<in> set (documents_2 crowded_env) \<and> 7 / 10 < similarity crowded_env [1, 0] r"
    by blast+
  with ok show ?thesis
    by (simp add: list_all_iff crowded_select)
qed

text \<open>
  C2 as stated, with a single line feed between passages, fails: for the sample store the
  two selected passages come back with two line feeds between them.
\<close>

theorem retrieved_context_counterexample:
  "fst (findSimilarContent sample_env [1, 0]) =
     Inr (''AWP is a benchmark'' @ [CHR 0x0A, CHR 0x0A] @ ''WAC is the list price'') \<and>
   fst (findSimilarContent sample_env [1, 0]) \<noteq>
     Inr (join [CHR 0x0A] (map contents (select_similar sample_env [1, 0])))"
  by (simp add: sample_findSimilarContent sample_context_def sample_select)

text \<open>
  C3. For every request whose \<^verbatim>\<open>persona\<close> field is neither \<^verbatim>\<open>'general'\<close> nor
  \<^verbatim>\<open>'roleplay'\<close> (absent, not a string, or another string), the persona the handler
  selects is \<open>general\<close>, and when the request has a latest query it is served with the
  \<open>general\<close> template. A greeting is answered by calling the completion provider with
  that template as the system message. Any other query, once the embedding, the
  retrieval and the mapping of the history have succeeded, is answered by calling the
  completion provider with that template followed by the Documentation Context. In both
  cases the response is the provider's stream when that call and the memory call
  succeed. No call of the completion provider carries another template.
\<close>

theorem unknown_persona_falls_back:
  fixes env :: env and kvs :: "(string \<times> jsval) list"
  defines "uid \<equiv> lookup kvs ''userId''"
  assumes "lookup kvs ''persona'' \<noteq> JStr ''general''"
    and "lookup kvs ''persona'' \<noteq> JStr ''roleplay''"
  shows "(case destructure (JObj kvs) of
            Inl e \<Rightarrow> False
          | Inr (messages, userId, rawPersona) \<Rightarrow> select_persona rawPersona = general) \<and>
         (\<forall>msgs m q.
            lookup kvs ''messages'' = JArr msgs \<and> msgs \<noteq> [] \<and> last msgs = JObj m \<and>
            lookup m ''content'' = JStr q \<longrightarrow>
            (isGreeting q \<longrightarrow>
               (let sent =
                      message ''system'' (JStr (SYSTEM_PROMPTS general)) # butlast msgs @
                      [message ''user'' (JStr q),
                       message ''assistant'' (getGreetingResponse (Math_random env))];
                    kept =
                      butlast msgs @
                      [message ''user'' (JStr q),
                       message ''assistant'' (getGreetingResponse (Math_random env))]
                in POST env (Body (JObj kvs)) =
                     (case streamText env uid sent of
                        Inl err \<Rightarrow> (internal_server_error, [StreamText uid sent])
                      | Inr result \<Rightarrow>
                          (case addMemories env kept uid of
                             Some err \<Rightarrow>
                               (internal_server_error,
                                [StreamText uid sent, AddMemories kept uid])
                           | None \<Rightarrow>
                               (DataStreamResponse result,
                                [StreamText uid sent, AddMemories kept uid]))))) \<and>
            (\<forall>e similarContent prev.
               \<not> isGreeting q \<and> embeddings_create env q = Inr e \<and>
               fst (findSimilarContent env e) = Inr similarContent \<and>
               map_role_and_content (butlast msgs) = Inr prev \<longrightarrow>
               (let sent =
                      message ''system''
                        (JStr (SYSTEM_PROMPTS general @ LF @ LF @
                               ''Documentation Context: '' @ similarContent)) # prev @
                      [message ''user'' (JStr q)]
                in POST env (Body (JObj kvs)) =
                     (case streamText env uid sent of
                        Inl err \<Rightarrow>
                          (internal_server_error,
                           [EmbeddingsCreate q, PoolQuery e, StreamText uid sent])
                      | Inr result \<Rightarrow>
                          (case addMemories env sent uid of
                             Some err \<Rightarrow>
                               (internal_server_error,
                                [EmbeddingsCreate q, PoolQuery e, StreamText uid sent,
                                 AddMemories sent uid])
                           | None \<Rightarrow>
                               (DataStreamResponse result,
                                [EmbeddingsCreate q, PoolQuery e, StreamText uid sent,
                                 AddMemories sent uid])))))) \<and>
         (\<forall>c \<in> set (snd (POST env (Body (JObj kvs)))).
            case c of
              StreamText u ms \<Rightarrow>
                (\<exists>rest. ms = message ''system'' (JStr (SYSTEM_PROMPTS general)) # rest) \<or>
                (\<exists>similarContent rest.
                   ms = message ''system''
                          (JStr (SYSTEM_PROMPTS general @ LF @ LF @
                                 ''Documentation Context: '' @ similarContent)) # rest)
            | _ \<Rightarrow> True)"
proof -
  let ?raw = "if lookup kvs ''persona'' = JUndefined then JStr ''general''
              else lookup kvs ''persona''"
  from assms(2,3) have p: "select_persona ?raw = general"
    by (simp add: select_persona_def isValidPersona_def)
  then have selected: "case destructure (JObj kvs) of
            Inl e \<Rightarrow> False
          | Inr (messages, userId, rawPersona) \<Rightarrow> select_persona rawPersona = general"
    by simp
  have served: "\<forall>msgs m q.
            lookup kvs ''messages'' = JArr msgs \<and> msgs \<noteq> [] \<and> last msgs = JObj m \<and>
            lookup m ''content'' = JStr q \<longrightarrow>
            (isGreeting q \<longrightarrow>
               (let sent =
                      message ''system'' (JStr (SYSTEM_PROMPTS general)) # butlast msgs @
                      [message ''user'' (JStr q),
                       message ''assistant'' (getGreetingResponse (Math_random env))];
                    kept =
                      butlast msgs @
                      [message ''user'' (JStr q),
                       message ''assistant'' (getGreetingResponse (Math_random env))]
                in POST env (Body (JObj kvs)) =
                     (case streamText env uid sent of
                        Inl err \<Rightarrow> (internal_server_error, [StreamText uid sent])
                      | Inr result \<Rightarrow>
                          (case addMemories env kept uid of
                             Some err \<Rightarrow>
                               (internal_server_error,
                                [StreamText uid sent, AddMemories kept uid])
                           | None \<Rightarrow>
                               (DataStreamResponse result,
                                [StreamText uid sent, AddMemories kept uid]))))) \<and>
            (\<forall>e similarContent prev.
               \<not> isGreeting q \<and> embeddings_create env q = Inr e \<and>
               fst (findSimilarContent env e) = Inr similarContent \<and>
               map_role_and_content (butlast msgs) = Inr prev \<longrightarrow>
               (let sent =
                      message ''system''
                        (JStr (SYSTEM_PROMPTS general @ LF @ LF @
                               ''Documentation Context: '' @ similarContent)) # prev @
                      [message ''user'' (JStr q)]
                in POST env (Body (JObj kvs)) =
                     (case streamText env uid sent of
                        Inl err \<Rightarrow>
                          (internal_server_error,
                           [EmbeddingsCreate q, PoolQuery e, StreamText uid sent])
                      | Inr result \<Rightarrow>
                          (case addMemories env sent uid of
                             Some err \<Rightarrow>
                               (internal_server_error,
                                [EmbeddingsCreate q, PoolQuery e, StreamText uid sent,
                                 AddMemories sent uid])
                           | None \<Rightarrow>
                               (DataStreamResponse result,
                                [EmbeddingsCreate q, PoolQuery e, StreamText uid sent,
                                 AddMemories sent uid])))))"
  proof (intro allI impI)
    fix msgs m q
    assume shape: "lookup kvs ''messages'' = JArr msgs \<and> msgs \<noteq> [] \<and> last msgs = JObj m \<and>
            lookup m ''content'' = JStr q"
    then have messages: "lookup kvs ''messages'' = JArr msgs" and nonempty: "msgs \<noteq> []"
      and turn: "last msgs = JObj m" and content: "lookup m ''content'' = JStr q"
      by blast+
    have greeting: "try_block env (Body (JObj kvs)) =
        greeting_branch env general uid q (JArr (butlast msgs))" if "isGreeting q"
      using try_block_greeting [OF messages nonempty turn content that, of env] p
      by (simp add: uid_def)
    have regular: "try_block env (Body (JObj kvs)) =
        regular_branch env general uid q (JArr (butlast msgs))" if "\<not> isGreeting q"
      using try_block_regular [OF messages nonempty turn content that, of env] p
      by (simp add: uid_def)
    have served_greeting: "isGreeting q \<longrightarrow>
               (let sent =
                      message ''system'' (JStr (SYSTEM_PROMPTS general)) # butlast msgs @
                      [message ''user'' (JStr q),
                       message ''assistant'' (getGreetingResponse (Math_random env))];
                    kept =
                      butlast msgs @
                      [message ''user'' (JStr q),
                       message ''assistant'' (getGreetingResponse (Math_random env))]
                in POST env (Body (JObj kvs)) =
                     (case streamText env uid sent of
                        Inl err \<Rightarrow> (internal_server_error, [StreamText uid sent])
                      | Inr result \<Rightarrow>
                          (case addMemories env kept uid of
                             Some err \<Rightarrow>
                               (internal_server_error,
                                [StreamText uid sent, AddMemories kept uid])
                           | None \<Rightarrow>
                               (DataStreamResponse result,
                                [StreamText uid sent, AddMemories kept uid]))))"
      using greeting
      by (simp add: POST_def greeting_branch_eq Let_def split: sum.splits option.splits)
    have served_regular: "\<forall>e similarContent prev.
               \<not> isGreeting q \<and> embeddings_create env q = Inr e \<and>
               fst (findSimilarContent env e) = Inr similarContent \<and>
               map_role_and_content (butlast msgs) = Inr prev \<longrightarrow>
               (let sent =
                      message ''system''
                        (JStr (SYSTEM_PROMPTS general @ LF @ LF @
                               ''Documentation Context: '' @ similarContent)) # prev @
                      [message ''user'' (JStr q)]
                in POST env (Body (JObj kvs)) =
                     (case streamText env uid sent of
                        Inl err \<Rightarrow>
                          (internal_server_error,
                           [EmbeddingsCreate q, PoolQuery e, StreamText uid sent])
                      | Inr result \<Rightarrow>
                          (case addMemories env sent uid of
                             Some err \<Rightarrow>
                               (internal_server_error,
                                [EmbeddingsCreate q, PoolQuery e, StreamText uid sent,
                                 AddMemories sent uid])
                           | None \<Rightarrow>
                               (DataStreamResponse result,
                                [EmbeddingsCreate q, PoolQuery e, StreamText uid sent,
                                 AddMemories sent uid]))))"
    proof (intro allI impI)
      fix e similarContent prev
      assume a: "\<not> isGreeting q \<and> embeddings_create env q = Inr e \<and>
               fst (findSimilarContent env e) = Inr similarContent \<and>
               map_role_and_content (butlast msgs) = Inr prev"
      then have "try_block env (Body (JObj kvs)) =
          regular_branch env general uid q (JArr (butlast msgs))"
        using regular by blast
      moreover from a have e: "embeddings_create env q = Inr e"
        and c: "fst (findSimilarContent env e) = Inr similarContent"
        and h: "map_role_and_content (butlast msgs) = Inr prev"
        by blast+
      note regular_branch_eq [OF e c h, of general uid]
      ultimately show "let sent =
                      message ''system''
                        (JStr (SYSTEM_PROMPTS general @ LF @ LF @
                               ''Documentation Context: '' @ similarContent)) # prev @
                      [message ''user'' (JStr q)]
                in POST env (Body (JObj kvs)) =
                     (case streamText env uid sent of
                        Inl err \<Rightarrow>
                          (internal_server_error,
                           [EmbeddingsCreate q, PoolQuery e, StreamText uid sent])
                      | Inr result \<Rightarrow>
                          (case addMemories env sent uid of
                             Some err \<Rightarrow>
                               (internal_server_error,
                                [EmbeddingsCreate q, PoolQuery e, StreamText uid sent,
                                 AddMemories sent uid])
                           | None \<Rightarrow>
                               (DataStreamResponse result,
                                [EmbeddingsCreate q, PoolQuery e, StreamText uid sent,
                                 AddMemories sent uid])))"
        by (simp add: POST_def systemPrompt_def Let_def split: sum.splits option.splits)
    qed
    from served_greeting served_regular
    show "(isGreeting q \<longrightarrow>
               (let sent =
                      message ''system'' (JStr (SYSTEM_PROMPTS general)) # butlast msgs @
                      [message ''user'' (JStr q),
                       message ''assistant'' (getGreetingResponse (Math_random env))];
                    kept =
                      butlast msgs @
                      [message ''user'' (JStr q),
                       message ''assistant'' (getGreetingResponse (Math_random env))]
                in POST env (Body (JObj kvs)) =
                     (case streamText env uid sent of
                        Inl err \<Rightarrow> (internal_server_error, [StreamText uid sent])
                      | Inr result \<Rightarrow>
                          (case addMemories env kept uid of
                             Some err \<Rightarrow>
                               (internal_server_error,
                                [StreamText uid sent, AddMemories kept uid])
                           | None \<Rightarrow>
                               (DataStreamResponse result,
                                [StreamText uid sent, AddMemories kept uid]))))) \<and>
            (\<forall>e similarContent prev.
               \<not> isGreeting q \<and> embeddings_create env q = Inr e \<and>
               fst (findSimilarContent env e) = Inr similarContent \<and>
               map_role_and_content (butlast msgs) = Inr prev \<longrightarrow>
               (let sent =
                      message ''system''
                        (JStr (SYSTEM_PROMPTS general @ LF @ LF @
                               ''Documentation Context: '' @ similarContent)) # prev @
                      [message ''user'' (JStr q)]
                in POST env (Body (JObj kvs)) =
                     (case streamText env uid sent of
                        Inl err \<Rightarrow>
                          (internal_server_error,
                           [EmbeddingsCreate q, PoolQuery e, StreamText uid sent])
                      | Inr result \<Rightarrow>
                          (case addMemories env sent uid of
                             Some err \<Rightarrow>
                               (internal_server_error,
                                [EmbeddingsCreate q, PoolQuery e, StreamText uid sent,
                                 AddMemories sent uid])
                           | None \<Rightarrow>
                               (DataStreamResponse result,
                                [EmbeddingsCreate q, PoolQuery e, StreamText uid sent,
                                 AddMemories sent uid])))))"
      by (rule conjI)
  qed
  have every_call: "\<forall>c \<in> set (snd (POST env (Body (JObj kvs)))).
            case c of
              StreamText u ms \<Rightarrow>
                (\<exists>rest. ms = message ''system'' (JStr (SYSTEM_PROMPTS general)) # rest) \<or>
                (\<exists>similarContent rest.
                   ms = message ''system''
                          (JStr (SYSTEM_PROMPTS general @ LF @ LF @
                                 ''Documentation Context: '' @ similarContent)) # rest)
            | _ \<Rightarrow> True"
  proof
    fix c
    assume c: "c \<in> set (snd (POST env (Body (JObj kvs))))"
    show "case c of
              StreamText u ms \<Rightarrow>
                (\<exists>rest. ms = message ''system'' (JStr (SYSTEM_PROMPTS general)) # rest) \<or>
                (\<exists>similarContent rest.
                   ms = message ''system''
                          (JStr (SYSTEM_PROMPTS general @ LF @ LF @
                                 ''Documentation Context: '' @ similarContent)) # rest)
            | _ \<Rightarrow> True"
    proof (cases "latest_query (Body (JObj kvs))")
      case None
      then obtain e where "try_block env (Body (JObj kvs)) = (Inl e, [])"
        using try_block_no_query by blast
      with c show ?thesis
        by (simp add: snd_POST)
    next
      case (Some q)
      then obtain msgs m where shape: "lookup kvs ''messages'' = JArr msgs" "msgs \<noteq> []"
        "last msgs = JObj m" "lookup m ''content'' = JStr q"
        using latest_query_SomeD [of "Body (JObj kvs)" q] by auto
      show ?thesis
      proof (cases c)
        case (StreamText u ms)
        show ?thesis
        proof (cases "isGreeting q")
          case True
          with shape have "try_block env (Body (JObj kvs)) =
              greeting_branch env general (lookup kvs ''userId'') q (JArr (butlast msgs))"
            using try_block_greeting [of kvs msgs m q env] p by simp
          with c StreamText show ?thesis
            using greeting_branch_stream [of u ms env general] by (auto simp: snd_POST)
        next
          case False
          with shape have "try_block env (Body (JObj kvs)) =
              regular_branch env general (lookup kvs ''userId'') q (JArr (butlast msgs))"
            using try_block_regular [of kvs msgs m q env] p by simp
          with c StreamText show ?thesis
            using regular_branch_stream [of u ms env general]
            by (auto simp: snd_POST systemPrompt_def)
        qed
      qed simp_all
    qed
  qed
  from selected served every_call show ?thesis
    by (intro conjI)
qed

theorem unknown_persona_falls_back_witness:
  "SYSTEM_PROMPTS general \<noteq> SYSTEM_PROMPTS roleplay \<and>
   lookup (chat_fields (JStr ''spanish'') [awp_turn]) ''persona'' = JStr ''spanish'' \<and>
   \<not> isGreeting ''What is AWP?'' \<and>
   POST sample_env (Body (JObj (chat_fields (JStr ''spanish'') [awp_turn]))) =
     (DataStreamResponse [''chunk''],
      [EmbeddingsCreate ''What is AWP?'', PoolQuery [1, 0],
       StreamText (JStr ''u1'')
         [message ''system''
            (JStr (SYSTEM_PROMPTS general @ LF @ LF @ ''Documentation Context: '' @
                   sample_context)),
          message ''user'' (JStr ''What is AWP?'')],
       AddMemories
         [message ''system''
            (JStr (SYSTEM_PROMPTS general @ LF @ LF @ ''Documentation Context: '' @
                   sample_context)),
          message ''user'' (JStr ''What is AWP?'')]
         (JStr ''u1'')]) \<and>
   lookup [(''messages'', JArr [hello_turn]), (''userId'', JStr ''u1'')] ''persona'' =
     JUndefined \<and>
   isGreeting ''Hello'' \<and>
   POST sample_env (Body (JObj [(''messages'', JArr [hello_turn]), (''userId'', JStr ''u1'')])) =
     (DataStreamResponse [''chunk''],
      [StreamText (JStr ''u1'')
         [message ''system'' (JStr (SYSTEM_PROMPTS general)),
          message ''user'' (JStr ''Hello''), message ''assistant'' (JStr (greetings ! 3))],
       AddMemories
         [message ''user'' (JStr ''Hello''), message ''assistant'' (JStr (greetings ! 3))]
         (JStr ''u1'')])"
proof -
  let ?spanish = "chat_fields (JStr ''spanish'') [awp_turn]"
  let ?absent = "[(''messages'', JArr [hello_turn]), (''userId'', JStr ''u1'')]"
  have stream: "streamText sample_env uid msgs = Inr [''chunk'']" for uid msgs
    by (simp add: sample_env_def)
  have memory: "addMemories sample_env msgs uid = None" for uid msgs
    by (simp add: sample_env_def)
  have spanish: "lookup ?spanish ''persona'' = JStr ''spanish''"
    and spanish_uid: "lookup ?spanish ''userId'' = JStr ''u1''"
    by (simp_all add: chat_fields_def lookup_def)
  have spanish_query:
    "lookup ?spanish ''messages'' = JArr [awp_turn] \<and> [awp_turn] \<noteq> [] \<and>
     last [awp_turn] = JObj [(''role'', JStr ''user''), (''content'', JStr ''What is AWP?'')] \<and>
     lookup [(''role'', JStr ''user''), (''content'', JStr ''What is AWP?'')] ''content'' =
       JStr ''What is AWP?''"
    by (simp add: chat_fields_def lookup_def awp_turn_def)
  have retrieval:
    "\<not> isGreeting ''What is AWP?'' \<and> embeddings_create sample_env ''What is AWP?'' = Inr [1, 0] \<and>
     fst (findSimilarContent sample_env [1, 0]) = Inr sample_context \<and>
     map_role_and_content (butlast [awp_turn]) = Inr []"
    using not_isGreeting_AWP sample_findSimilarContent by (simp add: sample_env_def)
  have absent: "lookup ?absent ''persona'' = JUndefined"
    and absent_uid: "lookup ?absent ''userId'' = JStr ''u1''"
    by (simp_all add: lookup_def)
  have absent_query:
    "lookup ?absent ''messages'' = JArr [hello_turn] \<and> [hello_turn] \<noteq> [] \<and>
     last [hello_turn] = JObj [(''role'', JStr ''user''), (''content'', JStr ''Hello'')] \<and>
     lookup [(''role'', JStr ''user''), (''content'', JStr ''Hello'')] ''content'' = JStr ''Hello''"
    by (simp add: lookup_def hello_turn_def)
  have "lookup ?spanish ''persona'' \<noteq> JStr ''general''"
    and "lookup ?spanish ''persona'' \<noteq> JStr ''roleplay''"
    by (simp_all add: spanish)
  note unknown_persona_falls_back [OF this, of sample_env]
  note this [THEN conjunct2, THEN conjunct1, rule_format, OF spanish_query]
  note this [THEN conjunct2, rule_format, OF retrieval]
  then have served_spanish:
    "POST sample_env (Body (JObj ?spanish)) =
     (DataStreamResponse [''chunk''],
      [EmbeddingsCreate ''What is AWP?'', PoolQuery [1, 0],
       StreamText (JStr ''u1'')
         [message ''system''
            (JStr (SYSTEM_PROMPTS general @ LF @ LF @ ''Documentation Context: '' @
                   sample_context)),
          message ''user'' (JStr ''What is AWP?'')],
       AddMemories
         [message ''system''
            (JStr (SYSTEM_PROMPTS general @ LF @ LF @ ''Documentation Context: '' @
                   sample_context)),
          message ''user'' (JStr ''What is AWP?'')]
         (JStr ''u1'')])"
    by (simp add: Let_def stream memory spanish_uid)
  have "lookup ?absent ''persona'' \<noteq> JStr ''general''"
    and "lookup ?absent ''persona'' \<noteq> JStr ''roleplay''"
    by (simp_all add: absent)
  note unknown_persona_falls_back [OF this, of sample_env]
  note this [THEN conjunct2, THEN conjunct1, rule_format, OF absent_query]
  note this [THEN conjunct1, rule_format, OF isGreeting_Hello]
  then have served_absent:
    "POST sample_env (Body (JObj ?absent)) =
     (DataStreamResponse [''chunk''],
      [StreamText (JStr ''u1'')
         [message ''system'' (JStr (SYSTEM_PROMPTS general)),
          message ''user'' (JStr ''Hello''), message ''assistant'' (JStr (greetings ! 3))],
       AddMemories
         [message ''user'' (JStr ''Hello''), message ''assistant'' (JStr (greetings ! 3))]
         (JStr ''u1'')])"
    by (simp add: Let_def stream memory absent_uid sample_greeting)
  from templates_differ spanish not_isGreeting_AWP served_spanish absent isGreeting_Hello
    served_absent
  show ?thesis
    by (intro conjI)
qed

text \<open>
  C4. On the regular branch, when \<open>findSimilarContent\<close> returns the empty string (no
  passage cleared the threshold) and the other calls succeed, the system prompt is the
  persona template followed by a blank line and the label \<^verbatim>\<open>Documentation Context: \<close> with
  nothing after it, and the request succeeds: the handler calls the completion provider
  with that prompt and answers with its stream.
\<close>

theorem empty_context_still_answers:
  fixes env :: env and kvs :: "(string \<times> jsval) list"
  defines "uid \<equiv> lookup kvs ''userId''"
    and "p \<equiv> select_persona (if lookup kvs ''persona'' = JUndefined then JStr ''general''
                                 else lookup kvs ''persona'')"
  assumes "lookup kvs ''messages'' = JArr msgs" "msgs \<noteq> []" "last msgs = JObj m"
    "lookup m ''content'' = JStr q" "\<not> isGreeting q"
    and "embeddings_create env q = Inr e"
    and "fst (findSimilarContent env e) = Inr []"
    and "map_role_and_content (butlast msgs) = Inr prev"
    and "streamText env uid
           (message ''system'' (JStr (SYSTEM_PROMPTS p @ LF @ LF @ ''Documentation Context: ''))
            # prev @ [message ''user'' (JStr q)]) = Inr result"
    and "addMemories env
           (message ''system'' (JStr (SYSTEM_PROMPTS p @ LF @ LF @ ''Documentation Context: ''))
            # prev @ [message ''user'' (JStr q)]) uid = None"
  shows "systemPrompt p [] = SYSTEM_PROMPTS p @ LF @ LF @ ''Documentation Context: '' \<and>
    POST env (Body (JObj kvs)) =
      (DataStreamResponse result,
       [EmbeddingsCreate q, PoolQuery e,
        StreamText uid
          (message ''system'' (JStr (SYSTEM_PROMPTS p @ LF @ LF @ ''Documentation Context: ''))
           # prev @ [message ''user'' (JStr q)]),
        AddMemories
          (message ''system'' (JStr (SYSTEM_PROMPTS p @ LF @ LF @ ''Documentation Context: ''))
           # prev @ [message ''user'' (JStr q)]) uid])"
proof
  show sp: "systemPrompt p [] = SYSTEM_PROMPTS p @ LF @ LF @ ''Documentation Context: ''"
    by (simp add: systemPrompt_def)
  have "try_block env (Body (JObj kvs)) = regular_branch env p uid q (JArr (butlast msgs))"
    unfolding p_def uid_def using assms(3-7) by (rule try_block_regular)
  moreover have "regular_branch env p uid q (JArr (butlast msgs)) =
    (Inr result,
     [EmbeddingsCreate q, PoolQuery e,
      StreamText uid
        (message ''system'' (JStr (systemPrompt p [])) # prev @ [message ''user'' (JStr q)]),
      AddMemories
        (message ''system'' (JStr (systemPrompt p [])) # prev @ [message ''user'' (JStr q)])
        uid])"
    using assms(8-12) by (intro regular_branch_success) (simp_all only: sp)
  ultimately show "POST env (Body (JObj kvs)) =
      (DataStreamResponse result,
       [EmbeddingsCreate q, PoolQuery e,
        StreamText uid
          (message ''system'' (JStr (SYSTEM_PROMPTS p @ LF @ LF @ ''Documentation Context: ''))
           # prev @ [message ''user'' (JStr q)]),
        AddMemories
          (message ''system'' (JStr (SYSTEM_PROMPTS p @ LF @ LF @ ''Documentation Context: ''))
           # prev @ [message ''user'' (JStr q)]) uid])"
    by (simp add: POST_def sp)
qed

theorem empty_context_still_answers_witness:
  "\<not> isGreeting ''What is AWP?'' \<and>
   fst (findSimilarContent no_match_env [1, 0]) = Inr [] \<and>
   POST no_match_env (Body (JObj (chat_fields (JStr ''roleplay'') [awp_turn]))) =
     (DataStreamResponse [''chunk''],
      [EmbeddingsCreate ''What is AWP?'', PoolQuery [1, 0],
       StreamText (JStr ''u1'')
         [message ''system''
            (JStr (SYSTEM_PROMPTS roleplay @ LF @ LF @ ''Documentation Context: '')),
          message ''user'' (JStr ''What is AWP?'')],
       AddMemories
         [message ''system''
            (JStr (SYSTEM_PROMPTS roleplay @ LF @ LF @ ''Documentation Context: '')),
          message ''user'' (JStr ''What is AWP?'')]
         (JStr ''u1'')])"
proof -
  let ?kvs = "chat_fields (JStr ''roleplay'') [awp_turn]"
  have uid: "lookup ?kvs ''userId'' = JStr ''u1''"
    by (simp add: chat_fields_def lookup_def)
  have p: "select_persona (if lookup ?kvs ''persona'' = JUndefined then JStr ''general''
                           else lookup ?kvs ''persona'') = roleplay"
    by (simp add: chat_fields_def lookup_def select_persona_def isValidPersona_def)
  have messages: "lookup ?kvs ''messages'' = JArr [awp_turn]"
    by (simp add: chat_fields_def lookup_def)
  have turn: "last [awp_turn] = JObj [(''role'', JStr ''user''), (''content'', JStr ''What is AWP?'')]"
    by (simp add: awp_turn_def)
  have content:
    "lookup [(''role'', JStr ''user''), (''content'', JStr ''What is AWP?'')] ''content'' =
       JStr ''What is AWP?''"
    by (simp add: lookup_def)
  have embedding: "embeddings_create no_match_env ''What is AWP?'' = Inr [1, 0]"
    by (simp add: no_match_env_def sample_env_def)
  have history: "map_role_and_content (butlast [awp_turn]) = Inr []"
    by simp
  have stream: "streamText no_match_env (lookup ?kvs ''userId'')
      (message ''system''
         (JStr (SYSTEM_PROMPTS
                  (select_persona (if lookup ?kvs ''persona'' = JUndefined
                                   then JStr ''general'' else lookup ?kvs ''persona'')) @
                LF @ LF @ ''Documentation Context: ''))
       # [] @ [message ''user'' (JStr ''What is AWP?'')]) = Inr [''chunk'']"
    by (simp add: no_match_env_def sample_env_def)
  have memory: "addMemories no_match_env
      (message ''system''
         (JStr (SYSTEM_PROMPTS
                  (select_persona (if lookup ?kvs ''persona'' = JUndefined
                                   then JStr ''general'' else lookup ?kvs ''persona'')) @
                LF @ LF @ ''Documentation Context: ''))
       # [] @ [message ''user'' (JStr ''What is AWP?'')]) (lookup ?kvs ''userId'') = None"
    by (simp add: no_match_env_def sample_env_def)
  from empty_context_still_answers
    [OF messages _ turn content not_isGreeting_AWP embedding no_match_findSimilarContent
      history stream memory]
  show ?thesis
    using not_isGreeting_AWP no_match_findSimilarContent by (simp add: uid p)
qed


text \<open>
  C5, as amended. For every request on the regular branch that carries \<open>N\<close> messages,
  the sequence passed to \<open>addMemories\<close> has length \<open>N + 1\<close>: the composed system message
  (persona template and Documentation Context) first, then the original \<open>N\<close> messages,
  that is the \<open>N - 1\<close> earlier ones reduced to role and content and the latest one as a
  \<^verbatim>\<open>user\<close> message. The new assistant turn is not in it: the last element is the user's
  turn.
\<close>

theorem persisted_sequence_regular:
  fixes env :: env and kvs :: "(string \<times> jsval) list"
  defines "p \<equiv> select_persona (if lookup kvs ''persona'' = JUndefined then JStr ''general''
                                 else lookup kvs ''persona'')"
  assumes "lookup kvs ''messages'' = JArr msgs" "msgs \<noteq> []" "last msgs = JObj m"
    "lookup m ''content'' = JStr q" "\<not> isGreeting q"
    and "AddMemories persisted uid \<in> set (snd (POST env (Body (JObj kvs))))"
  shows "length persisted = length msgs + 1 \<and>
         (\<exists>similarContent.
            hd persisted =
              message ''system''
                (JStr (SYSTEM_PROMPTS p @ LF @ LF @ ''Documentation Context: '' @
                       similarContent))) \<and>
         map_role_and_content (butlast msgs) = Inr (butlast (tl persisted)) \<and>
         last persisted = message ''user'' (JStr q)"
proof -
  have "try_block env (Body (JObj kvs)) =
          regular_branch env p (lookup kvs ''userId'') q (JArr (butlast msgs))"
    unfolding p_def using assms(2-6) by (rule try_block_regular)
  with assms(7) have
    "AddMemories persisted uid \<in>
       set (snd (regular_branch env p (lookup kvs ''userId'') q (JArr (butlast msgs))))"
    by (simp add: snd_POST)
  then obtain e similarContent prev where
    prev: "map_role_and_content (butlast msgs) = Inr prev"
    and persisted: "persisted =
      message ''system'' (JStr (systemPrompt p similarContent)) # prev @
      [message ''user'' (JStr q)]"
    using regular_branch_memory by blast
  from prev have "length prev = length msgs - 1"
    using map_role_and_content_length by fastforce
  with \<open>msgs \<noteq> []\<close> have "length persisted = length msgs + 1"
    by (cases msgs) (simp_all add: persisted)
  moreover have "hd persisted =
      message ''system''
        (JStr (SYSTEM_PROMPTS p @ LF @ LF @ ''Documentation Context: '' @ similarContent))"
    by (simp add: persisted systemPrompt_def)
  moreover have "map_role_and_content (butlast msgs) = Inr (butlast (tl persisted))"
    by (simp add: persisted prev)
  moreover have "last persisted = message ''user'' (JStr q)"
    by (simp add: persisted)
  ultimately show ?thesis
    by blast
qed

theorem persisted_sequence_regular_witness:
  "\<not> isGreeting ''What is AWP?'' \<and>
   AddMemories
     [message ''system'' (JStr (systemPrompt roleplay sample_context)),
      message ''user'' (JStr ''What is AWP?'')]
     (JStr ''u1'')
     \<in> set (snd (POST sample_env (Body (JObj (chat_fields (JStr ''roleplay'') [awp_turn]))))) \<and>
   length
     [message ''system'' (JStr (systemPrompt roleplay sample_context)),
      message ''user'' (JStr ''What is AWP?'')] = length [awp_turn] + 1 \<and>
   last
     [message ''system'' (JStr (systemPrompt roleplay sample_context)),
      message ''user'' (JStr ''What is AWP?'')] = message ''user'' (JStr ''What is AWP?'')"
proof -
  let ?kvs = "chat_fields (JStr ''roleplay'') [awp_turn]"
  let ?persisted = "[message ''system'' (JStr (systemPrompt roleplay sample_context)),
                     message ''user'' (JStr ''What is AWP?'')]"
  have messages: "lookup ?kvs ''messages'' = JArr [awp_turn]"
    by (simp add: chat_fields_def lookup_def)
  have turn: "last [awp_turn] = JObj [(''role'', JStr ''user''), (''content'', JStr ''What is AWP?'')]"
    by (simp add: awp_turn_def)
  have content:
    "lookup [(''role'', JStr ''user''), (''content'', JStr ''What is AWP?'')] ''content'' =
       JStr ''What is AWP?''"
    by (simp add: lookup_def)
  have "POST sample_env (Body (JObj ?kvs)) =
      (DataStreamResponse [''chunk''],
       [EmbeddingsCreate ''What is AWP?'', PoolQuery [1, 0],
        StreamText (JStr ''u1'') ?persisted, AddMemories ?persisted (JStr ''u1'')])"
    using sample_POST_regular [OF _ turn content not_isGreeting_AWP, of "[]"] by simp
  then have called:
    "AddMemories ?persisted (JStr ''u1'') \<in> set (snd (POST sample_env (Body (JObj ?kvs))))"
    by simp
  from persisted_sequence_regular [OF messages _ turn content not_isGreeting_AWP called]
  show ?thesis
    using not_isGreeting_AWP called by simp
qed

text \<open>
  C5 as stated, with the original \<open>N\<close> messages followed by the new assistant turn, fails:
  for the one-message request \<^verbatim>\<open>What is AWP?\<close> the persisted sequence is the system
  message and the user's message. Its first element is not the request's first message,
  and its last element has the role \<^verbatim>\<open>user\<close>.
\<close>

theorem persisted_sequence_regular_counterexample:
  "snd (POST sample_env (Body (JObj (chat_fields (JStr ''roleplay'') [awp_turn])))) =
     [EmbeddingsCreate ''What is AWP?'', PoolQuery [1, 0],
      StreamText (JStr ''u1'')
        [message ''system'' (JStr (systemPrompt roleplay sample_context)), awp_turn],
      AddMemories
        [message ''system'' (JStr (systemPrompt roleplay sample_context)), awp_turn]
        (JStr ''u1'')] \<and>
   message ''system'' (JStr (systemPrompt roleplay sample_context)) \<noteq> awp_turn \<and>
   get_prop awp_turn ''role'' = Inr (JStr ''user'')"
proof -
  have turn: "last [awp_turn] = JObj [(''role'', JStr ''user''), (''content'', JStr ''What is AWP?'')]"
    by (simp add: awp_turn_def)
  have content:
    "lookup [(''role'', JStr ''user''), (''content'', JStr ''What is AWP?'')] ''content'' =
       JStr ''What is AWP?''"
    by (simp add: lookup_def)
  have "POST sample_env (Body (JObj (chat_fields (JStr ''roleplay'') [awp_turn]))) =
      (DataStreamResponse [''chunk''],
       [EmbeddingsCreate ''What is AWP?'', PoolQuery [1, 0],
        StreamText (JStr ''u1'')
          [message ''system'' (JStr (systemPrompt roleplay sample_context)),
           message ''user'' (JStr ''What is AWP?'')],
        AddMemories
          [message ''system'' (JStr (systemPrompt roleplay sample_context)),
           message ''user'' (JStr ''What is AWP?'')] (JStr ''u1'')])"
    using sample_POST_regular [OF _ turn content not_isGreeting_AWP, of "[]"] by simp
  then show ?thesis
    by (simp add: message_def awp_turn_def lookup_def)
qed




text \<open>
  C7, as amended. For every request with no latest query, that is a body that is not
  JSON, that is not an object, whose \<^verbatim>\<open>messages\<close> is missing, not an array or empty, or
  whose last message is not an object with a string \<^verbatim>\<open>content\<close>, the handler answers
  with the 500 JSON response and calls no service. (A body that is malformed elsewhere,
  in its history or its \<^verbatim>\<open>userId\<close>, is not rejected before the services are called.)
\<close>

theorem no_query_no_calls:
  assumes "latest_query req = None"
  shows "POST env req = (internal_server_error, [])"
  using try_block_no_query [OF assms, of env] by (auto simp: POST_def)

theorem no_query_no_calls_witness:
  "latest_query InvalidJSON = None \<and>
   POST sample_env InvalidJSON = (internal_server_error, []) \<and>
   latest_query (Body (JObj [(''userId'', JStr ''u1'')])) = None \<and>
   POST sample_env (Body (JObj [(''userId'', JStr ''u1'')])) =
     (JsonResponse 500 (JObj [(''error'', JStr ''Internal Server Error'')]), [])"
proof -
  have invalid: "latest_query InvalidJSON = None"
    by simp
  have missing: "latest_query (Body (JObj [(''userId'', JStr ''u1'')])) = None"
    by (simp add: lookup_def)
  from no_query_no_calls [OF invalid, of sample_env]
    no_query_no_calls [OF missing, of sample_env] invalid missing
  show ?thesis
    by (simp add: internal_server_error_def)
qed

text \<open>
  C7 as stated, for every malformed body, fails: a body whose history holds \<^verbatim>\<open>null\<close> is
  not well formed, and the handler calls the embedding provider and the vector store
  before the \<^verbatim>\<open>TypeError\<close> on the history ends in the 500 response.
\<close>

theorem no_query_no_calls_counterexample:
  "\<not> well_formed (Body (JObj (chat_fields (JStr ''roleplay'') [JNull, awp_turn]))) \<and>
   POST sample_env (Body (JObj (chat_fields (JStr ''roleplay'') [JNull, awp_turn]))) =
     (internal_server_error, [EmbeddingsCreate ''What is AWP?'', PoolQuery [1, 0]])"
proof -
  let ?kvs = "chat_fields (JStr ''roleplay'') [JNull, awp_turn]"
  have messages: "lookup ?kvs ''messages'' = JArr [JNull, awp_turn]"
    by (simp add: chat_fields_def lookup_def)
  have turn: "last [JNull, awp_turn] =
                JObj [(''role'', JStr ''user''), (''content'', JStr ''What is AWP?'')]"
    by (simp add: awp_turn_def)
  have content:
    "lookup [(''role'', JStr ''user''), (''content'', JStr ''What is AWP?'')] ''content'' =
       JStr ''What is AWP?''"
    by (simp add: lookup_def)
  have embedding: "embeddings_create sample_env ''What is AWP?'' = Inr [1, 0]"
    by (simp add: sample_env_def)
  have history: "map_role_and_content [JNull] = Inl TypeError"
    by (simp add: role_and_content_def)
  have "try_block sample_env (Body (JObj ?kvs)) =
          (Inl TypeError, [EmbeddingsCreate ''What is AWP?'', PoolQuery [1, 0]])"
    using try_block_regular [OF messages _ turn content not_isGreeting_AWP, of sample_env]
      regular_branch_bad_history [OF embedding sample_findSimilarContent history]
    by simp
  then have "POST sample_env (Body (JObj ?kvs)) =
          (internal_server_error, [EmbeddingsCreate ''What is AWP?'', PoolQuery [1, 0]])"
    by (simp add: POST_def)
  moreover have "\<not> well_formed (Body (JObj ?kvs))"
    by (simp add: messages)
  ultimately show ?thesis
    by simp
qed

text \<open>
  C8. For every request and whatever the services answer, the handler calls each
  service (embedding provider, vector store, completion provider, memory store) at most
  once: no call is repeated.
\<close>

theorem each_service_at_most_once:
  "length (filter (\<lambda>c. service_of c = k) (snd (POST env req))) \<le> 1"
proof (cases "latest_query req")
  case None
  then obtain e where "try_block env req = (Inl e, [])"
    using try_block_no_query by blast
  then show ?thesis
    by (simp add: snd_POST)
next
  case (Some q)
  then obtain p uid prev where
    "try_block env req =
       (if isGreeting q then greeting_branch env p uid q prev
        else regular_branch env p uid q prev)"
    by (rule try_block_cases)
  then show ?thesis
    using greeting_branch_once [of k env p uid q prev]
      regular_branch_once [of k env p uid q prev]
    by (simp add: snd_POST)
qed

theorem each_service_at_most_once_witness:
  "list_all
     (\<lambda>k. length
            (filter (\<lambda>c. service_of c = k)
               (snd (POST sample_env (Body (JObj (chat_fields (JStr ''roleplay'') [awp_turn]))))))
          \<le> 1)
     [EmbeddingProvider, VectorStore, CompletionProvider, MemoryStore]"
  using each_service_at_most_once
    [of _ sample_env "Body (JObj (chat_fields (JStr ''roleplay'') [awp_turn]))"]
  by simp

text \<open>
  C9, as amended. On the regular branch, the sequence passed to \<open>addMemories\<close> is the
  system message made of the persona template and the Documentation Context (the
  retrieved passages), followed by the prior history (role and content of each message)
  and the latest user turn. The only assistant messages in it are those of the prior
  history.
\<close>

theorem persisted_sequence_contents:
  fixes env :: env and kvs :: "(string \<times> jsval) list"
  defines "p \<equiv> select_persona (if lookup kvs ''persona'' = JUndefined then JStr ''general''
                                 else lookup kvs ''persona'')"
  assumes "lookup kvs ''messages'' = JArr msgs" "msgs \<noteq> []" "last msgs = JObj m"
    "lookup m ''content'' = JStr q" "\<not> isGreeting q"
    and "AddMemories persisted uid \<in> set (snd (POST env (Body (JObj kvs))))"
  shows "\<exists>e similarContent prev.
           embeddings_create env q = Inr e \<and>
           fst (findSimilarContent env e) = Inr similarContent \<and>
           map_role_and_content (butlast msgs) = Inr prev \<and>
           persisted =
             message ''system''
               (JStr (SYSTEM_PROMPTS p @ LF @ LF @ ''Documentation Context: '' @ similarContent))
             # prev @ [message ''user'' (JStr q)] \<and>
           (\<forall>x \<in> set persisted.
              get_prop x ''role'' = Inr (JStr ''assistant'') \<longrightarrow> x \<in> set prev)"
proof -
  have "try_block env (Body (JObj kvs)) =
          regular_branch env p (lookup kvs ''userId'') q (JArr (butlast msgs))"
    unfolding p_def using assms(2-6) by (rule try_block_regular)
  with assms(7) have
    "AddMemories persisted uid \<in>
       set (snd (regular_branch env p (lookup kvs ''userId'') q (JArr (butlast msgs))))"
    by (simp add: snd_POST)
  then obtain e similarContent prev where
    e: "embeddings_create env q = Inr e"
    and c: "fst (findSimilarContent env e) = Inr similarContent"
    and prev: "map_role_and_content (butlast msgs) = Inr prev"
    and persisted: "persisted =
      message ''system'' (JStr (systemPrompt p similarContent)) # prev @
      [message ''user'' (JStr q)]"
    using regular_branch_memory by blast
  have "\<forall>x \<in> set persisted. get_prop x ''role'' = Inr (JStr ''assistant'') \<longrightarrow> x \<in> set prev"
    by (auto simp: persisted message_def lookup_def)
  with e c prev persisted show ?thesis
    by (auto simp: systemPrompt_def)
qed

theorem persisted_sequence_contents_witness:
  "\<not> isGreeting ''And WAC?'' \<and>
   AddMemories
     [message ''system'' (JStr (systemPrompt roleplay sample_context)), awp_turn, answer_turn,
      message ''user'' (JStr ''And WAC?'')]
     (JStr ''u1'')
     \<in> set (snd (POST sample_env
                   (Body (JObj (chat_fields (JStr ''roleplay'')
                                  [awp_turn, answer_turn, wac_turn]))))) \<and>
   (\<exists>e similarContent prev.
      embeddings_create sample_env ''And WAC?'' = Inr e \<and>
      fst (findSimilarContent sample_env e) = Inr similarContent \<and>
      map_role_and_content (butlast [awp_turn, answer_turn, wac_turn]) = Inr prev \<and>
      [message ''system'' (JStr (systemPrompt roleplay sample_context)), awp_turn, answer_turn,
       message ''user'' (JStr ''And WAC?'')] =
        message ''system''
          (JStr (SYSTEM_PROMPTS roleplay @ LF @ LF @ ''Documentation Context: '' @ similarContent))
        # prev @ [message ''user'' (JStr ''And WAC?'')] \<and>
      (\<forall>x \<in> set [message ''system'' (JStr (systemPrompt roleplay sample_context)), awp_turn,
                  answer_turn, message ''user'' (JStr ''And WAC?'')].
         get_prop x ''role'' = Inr (JStr ''assistant'') \<longrightarrow> x \<in> set prev))"
proof -
  let ?kvs = "chat_fields (JStr ''roleplay'') [awp_turn, answer_turn, wac_turn]"
  let ?persisted =
    "[message ''system'' (JStr (systemPrompt roleplay sample_context)), awp_turn, answer_turn,
      message ''user'' (JStr ''And WAC?'')]"
  have p: "select_persona (if lookup ?kvs ''persona'' = JUndefined then JStr ''general''
                           else lookup ?kvs ''persona'') = roleplay"
    by (simp add: chat_fields_def lookup_def select_persona_def isValidPersona_def)
  have messages: "lookup ?kvs ''messages'' = JArr [awp_turn, answer_turn, wac_turn]"
    by (simp add: chat_fields_def lookup_def)
  have turn: "last [awp_turn, answer_turn, wac_turn] =
                JObj [(''role'', JStr ''user''), (''content'', JStr ''And WAC?'')]"
    by (simp add: wac_turn_def)
  have content:
    "lookup [(''role'', JStr ''user''), (''content'', JStr ''And WAC?'')] ''content'' =
       JStr ''And WAC?''"
    by (simp add: lookup_def)
  have history: "map_role_and_content (butlast [awp_turn, answer_turn, wac_turn]) =
                   Inr [awp_turn, answer_turn]"
    by (simp add: role_and_content_def awp_turn_def answer_turn_def lookup_def)
  have "POST sample_env (Body (JObj ?kvs)) =
      (DataStreamResponse [''chunk''],
       [EmbeddingsCreate ''And WAC?'', PoolQuery [1, 0],
        StreamText (JStr ''u1'') ?persisted, AddMemories ?persisted (JStr ''u1'')])"
    using sample_POST_regular [OF _ turn content not_isGreeting_WAC history] by simp
  then have called:
    "AddMemories ?persisted (JStr ''u1'') \<in> set (snd (POST sample_env (Body (JObj ?kvs))))"
    by simp
  note persisted_sequence_contents [OF messages _ turn content not_isGreeting_WAC called]
  then have contents: "\<exists>e similarContent prev.
      embeddings_create sample_env ''And WAC?'' = Inr e \<and>
      fst (findSimilarContent sample_env e) = Inr similarContent \<and>
      map_role_and_content (butlast [awp_turn, answer_turn, wac_turn]) = Inr prev \<and>
      ?persisted =
        message ''system''
          (JStr (SYSTEM_PROMPTS roleplay @ LF @ LF @ ''Documentation Context: '' @ similarContent))
        # prev @ [message ''user'' (JStr ''And WAC?'')] \<and>
      (\<forall>x \<in> set ?persisted.
         get_prop x ''role'' = Inr (JStr ''assistant'') \<longrightarrow> x \<in> set prev)"
    unfolding p by simp
  show ?thesis
    by (rule conjI [OF not_isGreeting_WAC conjI [OF called contents]])
qed

text \<open>
  C9 as stated, with no assistant message in the persisted sequence, fails: for a
  request whose history holds an assistant answer, that answer is persisted.
\<close>

theorem persisted_sequence_contents_counterexample:
  "snd (POST sample_env
          (Body (JObj (chat_fields (JStr ''roleplay'') [awp_turn, answer_turn, wac_turn])))) =
     [EmbeddingsCreate ''And WAC?'', PoolQuery [1, 0],
      StreamText (JStr ''u1'')
        [message ''system'' (JStr (systemPrompt roleplay sample_context)), awp_turn,
         answer_turn, wac_turn],
      AddMemories
        [message ''system'' (JStr (systemPrompt roleplay sample_context)), awp_turn,
         answer_turn, wac_turn]
        (JStr ''u1'')] \<and>
   get_prop answer_turn ''role'' = Inr (JStr ''assistant'')"
proof -
  have turn: "last [awp_turn, answer_turn, wac_turn] =
                JObj [(''role'', JStr ''user''), (''content'', JStr ''And WAC?'')]"
    by (simp add: wac_turn_def)
  have content:
    "lookup [(''role'', JStr ''user''), (''content'', JStr ''And WAC?'')] ''content'' =
       JStr ''And WAC?''"
    by (simp add: lookup_def)
  have history: "map_role_and_content (butlast [awp_turn, answer_turn, wac_turn]) =
                   Inr [awp_turn, answer_turn]"
    by (simp add: role_and_content_def awp_turn_def answer_turn_def lookup_def)
  have "POST sample_env
          (Body (JObj (chat_fields (JStr ''roleplay'') [awp_turn, answer_turn, wac_turn]))) =
      (DataStreamResponse [''chunk''],
       [EmbeddingsCreate ''And WAC?'', PoolQuery [1, 0],
        StreamText (JStr ''u1'')
          [message ''system'' (JStr (systemPrompt roleplay sample_context)), awp_turn,
           answer_turn, message ''user'' (JStr ''And WAC?'')],
        AddMemories
          [message ''system'' (JStr (systemPrompt roleplay sample_context)), awp_turn,
           answer_turn, message ''user'' (JStr ''And WAC?'')]
          (JStr ''u1'')])"
    using sample_POST_regular [OF _ turn content not_isGreeting_WAC history] by simp
  then show ?thesis
    by (simp add: message_def wac_turn_def answer_turn_def lookup_def)
qed

text \<open>
  C10. If the body parses as JSON and its \<^verbatim>\<open>messages\<close> is the empty array, reading the
  latest user query throws a \<^verbatim>\<open>TypeError\<close> (\<^verbatim>\<open>messages[-1]\<close> is \<^verbatim>\<open>undefined\<close>), and the
  handler answers with the 500 response without calling any service.
\<close>

theorem empty_messages_fail:
  assumes "lookup kvs ''messages'' = JArr []"
  shows "last_message (lookup kvs ''messages'') = Inr JUndefined \<and>
         get_prop JUndefined ''content'' = Inl TypeError \<and>
         try_block env (Body (JObj kvs)) = (Inl TypeError, []) \<and>
         POST env (Body (JObj kvs)) =
           (JsonResponse 500 (JObj [(''error'', JStr ''Internal Server Error'')]), [])"
  using assms by (simp add: POST_def try_block_def req_json_def internal_server_error_def)

theorem empty_messages_fail_witness:
  "lookup [(''messages'', JArr []), (''userId'', JStr ''u1'')] ''messages'' = JArr [] \<and>
   POST sample_env (Body (JObj [(''messages'', JArr []), (''userId'', JStr ''u1'')])) =
     (JsonResponse 500 (JObj [(''error'', JStr ''Internal Server Error'')]), [])"
proof -
  have empty: "lookup [(''messages'', JArr []), (''userId'', JStr ''u1'')] ''messages'' = JArr []"
    by (simp add: lookup_def)
  from empty_messages_fail [OF empty, of sample_env] empty show ?thesis
    by simp
qed

end
